theory Spec2Isabelle
  imports Main "HOL-Library.Char_ord" "HOL-Library.List_Lexorder" "HOL-Library.Sublist" "HOL-Library.AList"
begin

section \<open>Values exchanged with the relay and with peers\<close>

text \<open>
  Every inbound frame is the result of \<^verbatim>\<open>JSON.parse\<close>; the handlers read its properties
  without checking their types. A parsed value is therefore kept as a JSON value, and a
  property that is absent reads as \<open>JUndefined\<close>, as in JavaScript. Numbers are kept as
  integers: the code only ever tests them for truthiness and strict equality.
\<close>

datatype jsval =
    JUndefined
  | JNull
  | JBool bool
  | JNum int
  | JStr string
  | JArr "jsval list"
  | JObj "(string \<times> jsval) list"


text \<open>
  Reading \<^verbatim>\<open>msg.k\<close>. On an object it is the stored value or \<^verbatim>\<open>undefined\<close>; on the other
  non-null values none of the property names used by the protocol exists. Reading a
  property of \<^verbatim>\<open>null\<close> throws, which the handlers below test before the first read.
\<close>

fun js_get :: "jsval \<Rightarrow> string \<Rightarrow> jsval" where
  "js_get (JObj kvs) k = (case map_of kvs k of None \<Rightarrow> JUndefined | Some v \<Rightarrow> v)"
| "js_get v k = JUndefined"

text \<open>Writing \<^verbatim>\<open>msg.k = v\<close> on a parsed object; a no-op on a primitive.\<close>

fun set_prop :: "jsval \<Rightarrow> string \<Rightarrow> jsval \<Rightarrow> jsval" where
  "set_prop (JObj kvs) k v = JObj (AList.update k v kvs)"
| "set_prop u k v = u"

section \<open>P2PMessaging: the one-to-one room name\<close>

text \<open>
  \<^verbatim>\<open>Array.prototype.sort()\<close> without a comparator, on an array of two strings: the
  elements are compared as strings, code unit by code unit, and the sort is stable, so
  the two are swapped exactly when the second is strictly smaller than the first.
\<close>

definition sort_two :: "string \<Rightarrow> string \<Rightarrow> string list" where
  "sort_two a b = (if b < a then [b, a] else [a, b])"

text \<open>
  \<^verbatim>\<open>generateOneToOneRoomName\<close>. The derivation \<^verbatim>\<open>heat.crypto.getAccountIdFromPublicKey\<close>
  is not part of these sources and is a parameter.
\<close>

definition generateOneToOneRoomName :: "(string \<Rightarrow> string) \<Rightarrow> string \<Rightarrow> string \<Rightarrow> string" where
  "generateOneToOneRoomName getAccountIdFromPublicKey peerOnePublicKey peerTwoPublicKey =
     (let arr = sort_two (getAccountIdFromPublicKey peerOnePublicKey)
                         (getAccountIdFromPublicKey peerTwoPublicKey)
      in arr ! 0 @ ''-'' @ arr ! 1)"

section \<open>The objects the connector works on\<close>

text \<open>
  Rooms, peers, data channels and peer connections are JavaScript objects that are shared
  by reference: the room passed to \<^verbatim>\<open>enter\<close> may or may not be the object already
  registered under its name, and a timer keeps the peer it captured. The model keeps one
  store per kind of object, indexed by reference; a reference always denotes an object.
\<close>

type_synonym room_ref = nat
type_synonym peer_ref = nat
type_synonym chan_ref = nat
type_synonym pc_ref = nat

datatype OnlineStatus = Online | Offline

datatype EnterRoomState = Not_entered | Entering | Entered

datatype ConnectionRole = Offer | Answer | No_need

datatype ReadyState = Connecting | Open | Closing | Closed

text \<open>
  The class \<^verbatim>\<open>Room\<close> is not part of these sources; the connector reads and writes the
  fields below. \<open>state_entered\<close> and \<open>state_approved\<close> are \<^verbatim>\<open>room.state.entered\<close> and
  \<^verbatim>\<open>room.state.approved\<close>; \<open>proofData\<close> is \<^verbatim>\<open>room["proofData"]\<close>, absent until the first
  data channel of the room opens; \<open>onRejected\<close> and \<open>onOpenDataChannel\<close> tell whether
  these optional hooks are set.
  \<open>peers\<close> is the table behind \<^verbatim>\<open>room.getPeer\<close>.
\<close>

record room =
  name :: string
  state_entered :: EnterRoomState
  state_approved :: bool
  proofData :: "(string \<rightharpoonup> string) option"
  memberPublicKeys :: "string list"
  peers :: "string \<rightharpoonup> peer_ref"
  onRejected :: bool
  onOpenDataChannel :: bool

text \<open>
  The class of the peers is not part of these sources either. \<open>connectionRole\<close> and
  \<open>noNeedReconnect\<close> are the two properties the connector attaches to a peer
  (\<open>None\<close> is \<^verbatim>\<open>undefined\<close>).

  Modelled from the spec: \<^verbatim>\<open>Peer.isConnected()\<close> is missing from the sources; the spec
  gives a peer a derived flag \<^verbatim>\<open>connected\<close>, true iff the channel is open and
  identity-verified. The model keeps the flag in the peer, set by the environment.
\<close>

record peer =
  peerConnection :: "pc_ref option"
  dataChannel :: "chan_ref option"
  connectionRole :: "ConnectionRole option"
  noNeedReconnect :: bool
  isConnected :: bool

record channel =
  label :: string
  readyState :: ReadyState

text \<open>The closures handed to \<^verbatim>\<open>setTimeout\<close>, with what each one captures.\<close>

datatype timer =
    RevertEntering room_ref
  | Reconnect peer_ref jsval jsval
  | PromiseTimeout nat

datatype promise_state = Pending | Resolved jsval | Rejected string

text \<open>
  A closure \<^verbatim>\<open>f\<close> of \<^verbatim>\<open>request\<close>: its identity (closures are compared by reference in
  \<^verbatim>\<open>indexOf\<close>), which is also the promise it resolves, and its \<^verbatim>\<open>handleResponse\<close>.
\<close>

record matcher =
  mid :: nat
  handleResponse :: "jsval \<Rightarrow> jsval"

text \<open>Calls on the collaborators of the connector, in the order they are made.\<close>

datatype effect =
    SendSignalingMessage "jsval list"
  | ChannelSend chan_ref jsval
  | ChannelClose chan_ref
  | RoomOnMessageInternal room_ref jsval
  | RoomOnRejected room_ref string jsval
  | RoomOnOpenDataChannel room_ref string
  | ConfirmIncomingCall jsval jsval
  | SignalingError jsval
  | PcClose pc_ref
  | PcSetRemoteDescription pc_ref jsval
  | PcAddIceCandidate pc_ref jsval jsval
  | PcCreateOffer pc_ref jsval jsval
  | PcCreateAnswer pc_ref
  | Uncaught

datatype error = TypeError | SyntaxError

text \<open>
  The state: the fields of \<^verbatim>\<open>P2PConnector\<close> (\<open>onlineStatus\<close> is \<^verbatim>\<open>_onlineStatus\<close>;
  \<open>pendingRooms\<close> holds the room each queued \<^verbatim>\<open>requestEnterRoom\<close> closure captured and
  \<open>pendingOnlineStatus\<close> the status the queued \<^verbatim>\<open>sendOnlineStatus\<close> captured), the object
  stores, the clock and the timers of the event loop in the order they were set, the
  promises returned by \<^verbatim>\<open>request\<close>, and the calls made so far. \<open>rtcSupported\<close> tells
  whether \<^verbatim>\<open>new RTCPeerConnection\<close> succeeds.
\<close>

record world =
  rooms :: "string \<rightharpoonup> room_ref"
  signalingMessageAwaitings :: "matcher list"
  pendingIdentity :: "string option"
  identity :: "string option"
  pendingRooms :: "room_ref list"
  pendingOnlineStatus :: "OnlineStatus option"
  onlineStatus :: OnlineStatus
  roomObj :: "room_ref \<Rightarrow> room"
  peerObj :: "peer_ref \<Rightarrow> peer"
  chanObj :: "chan_ref \<Rightarrow> channel"
  iceConnectionState :: "pc_ref \<Rightarrow> string"
  rtcSupported :: bool
  now :: nat
  timers :: "(nat \<times> timer) list"
  promises :: "nat \<Rightarrow> promise_state"
  fresh :: nat
  out :: "effect list"

definition emit :: "effect \<Rightarrow> world \<Rightarrow> world" where
  "emit e w = w\<lparr>out := out w @ [e]\<rparr>"

definition upd_room :: "room_ref \<Rightarrow> (room \<Rightarrow> room) \<Rightarrow> world \<Rightarrow> world" where
  "upd_room r f w = w\<lparr>roomObj := (roomObj w)(r := f (roomObj w r))\<rparr>"

definition upd_peer :: "peer_ref \<Rightarrow> (peer \<Rightarrow> peer) \<Rightarrow> world \<Rightarrow> world" where
  "upd_peer p f w = w\<lparr>peerObj := (peerObj w)(p := f (peerObj w p))\<rparr>"


text \<open>\<^verbatim>\<open>setTimeout(f, ms)\<close>.\<close>

definition setTimeout :: "timer \<Rightarrow> nat \<Rightarrow> world \<Rightarrow> world" where
  "setTimeout f ms w = w\<lparr>timers := timers w @ [(now w + ms, f)]\<rparr>"

text \<open>\<^verbatim>\<open>clearTimeout\<close> of the timer that was set for the closure \<open>f\<close>.\<close>

definition clearTimeout :: "timer \<Rightarrow> world \<Rightarrow> world" where
  "clearTimeout f w = w\<lparr>timers := filter (\<lambda>t. snd t \<noteq> f) (timers w)\<rparr>"

text \<open>\<^verbatim>\<open>if (this.identity)\<close>: \<^verbatim>\<open>null\<close>, \<^verbatim>\<open>undefined\<close> and the empty string are falsy.\<close>

definition truthy_str :: "string option \<Rightarrow> bool" where
  "truthy_str x = (case x of None \<Rightarrow> False | Some s \<Rightarrow> s \<noteq> [])"

text \<open>\<^verbatim>\<open>this.rooms.get(roomName)\<close> with a key read from a message: the keys are strings.\<close>

definition rooms_get :: "world \<Rightarrow> jsval \<Rightarrow> room_ref option" where
  "rooms_get w k = (case k of JStr n \<Rightarrow> rooms w n | _ \<Rightarrow> None)"

text \<open>
  Modelled from the spec: \<^verbatim>\<open>Room.getPeer(peerId)\<close> is missing from the sources; the spec
  gives a room the table \<^verbatim>\<open>peers: map<Identity, Peer>\<close>, which \<open>getPeer\<close> looks up.
\<close>

definition getPeer :: "room \<Rightarrow> jsval \<Rightarrow> peer_ref option" where
  "getPeer r k = (case k of JStr p \<Rightarrow> peers r p | _ \<Rightarrow> None)"

section \<open>P2PConnector: signaling, online status, entering a room\<close>

text \<open>
  \<^verbatim>\<open>sendSignalingMessage\<close>: the batch is handed to the web socket once it is available;
  a failure to obtain the socket is logged. The model records the call.
\<close>

definition sendSignalingMessage :: "jsval list \<Rightarrow> world \<Rightarrow> world" where
  "sendSignalingMessage message w = emit (SendSignalingMessage message) w"

definition status_str :: "OnlineStatus \<Rightarrow> jsval" where
  "status_str s = (case s of Online \<Rightarrow> JStr ''online'' | Offline \<Rightarrow> JStr ''offline'')"

text \<open>The closure \<^verbatim>\<open>sendOnlineStatus\<close> of \<^verbatim>\<open>setOnlineStatus\<close>.\<close>

definition status_msg :: "OnlineStatus \<Rightarrow> jsval" where
  "status_msg s = JObj [(''type'', JStr ''SET_ONLINE_STATUS''), (''status'', status_str s)]"

definition sendOnlineStatus :: "OnlineStatus \<Rightarrow> world \<Rightarrow> world" where
  "sendOnlineStatus status w = sendSignalingMessage [status_msg status] w"

definition setOnlineStatus :: "OnlineStatus \<Rightarrow> world \<Rightarrow> world" where
  "setOnlineStatus status w =
     (let w1 = (if truthy_str (identity w) then sendOnlineStatus status w
                else (sendSignalingMessage [JObj [(''type'', JStr ''WANT_PROVE_IDENTITY'')]] w)
                       \<lparr>pendingOnlineStatus := Some status\<rparr>);
          w2 = w1\<lparr>onlineStatus := status\<rparr>
      in if status = Offline then w2\<lparr>identity := None\<rparr> else w2)"

text \<open>The closure \<^verbatim>\<open>requestEnterRoom\<close> of \<^verbatim>\<open>enter\<close>, for the room it captured.\<close>

definition room_msg :: "string \<Rightarrow> jsval" where
  "room_msg n = JObj [(''type'', JStr ''ROOM''), (''room'', JStr n)]"

definition requestEnterRoom :: "room_ref \<Rightarrow> world \<Rightarrow> world" where
  "requestEnterRoom r w =
     (let w1 = upd_room r (\<lambda>x. x\<lparr>state_approved := True\<rparr>) w
      in if state_entered (roomObj w1 r) = Not_entered
         then sendSignalingMessage [room_msg (name (roomObj w1 r))]
                (setTimeout (RevertEntering r) 4000
                  (upd_room r (\<lambda>x. x\<lparr>state_entered := Entering\<rparr>) w1))
         else w1)"

definition enter :: "room_ref \<Rightarrow> bool \<Rightarrow> world \<Rightarrow> world" where
  "enter r enforce w =
     (let existingRoom = rooms w (name (roomObj w r));
          is_entered = (case existingRoom of None \<Rightarrow> False
                        | Some e \<Rightarrow> state_entered (roomObj w e) = Entered)
      in if is_entered \<and> \<not> enforce then w
         else
           (let w1 = (case existingRoom of None \<Rightarrow> w
                      | Some e \<Rightarrow> if is_entered
                                  then upd_room e (\<lambda>x. x\<lparr>state_entered := Not_entered\<rparr>) w
                                  else w);
                w2 = w1\<lparr>rooms := (rooms w1)(name (roomObj w1 r) \<mapsto> r)\<rparr>
            in if truthy_str (identity w2) then requestEnterRoom r w2
               else sendSignalingMessage [JObj [(''type'', JStr ''WANT_PROVE_IDENTITY'')]]
                      (w2\<lparr>pendingRooms := pendingRooms w2 @ [r]\<rparr>)))"

section \<open>P2PConnector: peer connections and offers\<close>

text \<open>
  \<^verbatim>\<open>askPeerConnection\<close>. The lookups throw when the room or the peer is missing. An
  existing connection that is not connected is closed; in every case a new connection is
  created and stored in the peer, unless the constructor throws, which is caught and
  gives \<^verbatim>\<open>undefined\<close>. The handlers set on the new connection run on later events.
\<close>

definition askPeerConnection :: "jsval \<Rightarrow> jsval \<Rightarrow> world \<Rightarrow> (error + pc_ref option) \<times> world" where
  "askPeerConnection roomName peerId w =
     (case rooms_get w roomName of
        None \<Rightarrow> (Inl TypeError, w)
      | Some r \<Rightarrow>
          (case getPeer (roomObj w r) peerId of
             None \<Rightarrow> (Inl TypeError, w)
           | Some p \<Rightarrow>
               (let w1 = (case peerConnection (peerObj w p) of
                            None \<Rightarrow> w
                          | Some pc \<Rightarrow>
                              if iceConnectionState w pc \<noteq> ''connected''
                              then emit (PcClose pc)
                                     (w\<lparr>iceConnectionState := (iceConnectionState w)(pc := ''closed'')\<rparr>)
                              else w)
                in if rtcSupported w1
                   then (let pc = fresh w1;
                             w2 = w1\<lparr>fresh := Suc pc,
                                     iceConnectionState := (iceConnectionState w1)(pc := ''new'')\<rparr>
                         in (Inr (Some pc), upd_peer p (\<lambda>x. x\<lparr>peerConnection := Some pc\<rparr>) w2))
                   else (Inr None, w1))))"

text \<open>A key that has just been looked up successfully is a string.\<close>

definition the_str :: "jsval \<Rightarrow> string" where
  "the_str v = (case v of JStr s \<Rightarrow> s | _ \<Rightarrow> [])"

text \<open>\<^verbatim>\<open>initDataChannel\<close>: the three handlers are set, then the channel is stored in the peer.\<close>

definition initDataChannel :: "jsval \<Rightarrow> jsval \<Rightarrow> chan_ref \<Rightarrow> world \<Rightarrow> error option \<times> world" where
  "initDataChannel roomName peerId c w =
     (case rooms_get w roomName of
        None \<Rightarrow> (Some TypeError, w)
      | Some r \<Rightarrow>
          (case getPeer (roomObj w r) peerId of
             None \<Rightarrow> (Some TypeError, w)
           | Some p \<Rightarrow> (None, upd_peer p (\<lambda>x. x\<lparr>dataChannel := Some c\<rparr>) w)))"

text \<open>
  \<^verbatim>\<open>createDataChannel\<close>: without a connection the call throws inside the \<^verbatim>\<open>try\<close> and the
  function returns; otherwise the connection makes a new channel, not yet open.
\<close>

definition createDataChannel :: "jsval \<Rightarrow> jsval \<Rightarrow> pc_ref option \<Rightarrow> world \<Rightarrow> error option \<times> world" where
  "createDataChannel roomName peerId peerConnection' w =
     (case peerConnection' of
        None \<Rightarrow> (None, w)
      | Some pc \<Rightarrow>
          (let c = fresh w;
               w1 = w\<lparr>fresh := Suc c,
                      chanObj := (chanObj w)
                        (c := \<lparr>label = the_str roomName @ '':'' @ the_str peerId, readyState = Connecting\<rparr>)\<rparr>
           in initDataChannel roomName peerId c w1))"

text \<open>
  \<^verbatim>\<open>doOffer\<close>. The callbacks of \<^verbatim>\<open>createOffer\<close>, which send the local description for the
  room and the peer they captured, run on later events.
\<close>

definition doOffer :: "jsval \<Rightarrow> jsval \<Rightarrow> pc_ref option \<Rightarrow> world \<Rightarrow> error option \<times> world" where
  "doOffer roomName peerId peerConnection' w =
     (case rooms_get w roomName of
        None \<Rightarrow> (Some TypeError, w)
      | Some r \<Rightarrow>
          (case getPeer (roomObj w r) peerId of
             None \<Rightarrow> (Some TypeError, w)
           | Some p \<Rightarrow>
               (let w1 = upd_peer p (\<lambda>x. x\<lparr>connectionRole := Some Offer\<rparr>) w
                in case createDataChannel roomName peerId peerConnection' w1 of
                     (Some e, w2) \<Rightarrow> (Some e, w2)
                   | (None, w2) \<Rightarrow>
                       (case peerConnection' of
                          None \<Rightarrow> (Some TypeError, w2)
                        | Some pc \<Rightarrow> (None, emit (PcCreateOffer pc roomName peerId) w2)))))"

text \<open>\<^verbatim>\<open>doAnswer\<close>, called once the remote description of an inbound offer is set.\<close>

definition doAnswer :: "jsval \<Rightarrow> jsval \<Rightarrow> pc_ref \<Rightarrow> world \<Rightarrow> error option \<times> world" where
  "doAnswer roomName peerId pc w =
     (case rooms_get w roomName of
        None \<Rightarrow> (Some TypeError, w)
      | Some r \<Rightarrow>
          (case getPeer (roomObj w r) peerId of
             None \<Rightarrow> (Some TypeError, w)
           | Some p \<Rightarrow>
               (None, emit (PcCreateAnswer pc)
                  (upd_peer p (\<lambda>x. x\<lparr>connectionRole :=
                     (if connectionRole x \<noteq> None then Some No_need else Some Answer)\<rparr>) w))))"

section \<open>The event loop: timers\<close>

definition reject :: "nat \<Rightarrow> string \<Rightarrow> world \<Rightarrow> world" where
  "reject q err w = (if promises w q = Pending then w\<lparr>promises := (promises w)(q := Rejected err)\<rparr> else w)"

text \<open>
  The bodies of the three timer closures: of \<^verbatim>\<open>enter\<close> (lines 141-145), of the
  \<^verbatim>\<open>candidate\<close> handler (lines 301-307) and of \<^verbatim>\<open>promiseTimeout\<close> (lines 638-640).
\<close>

fun fire :: "timer \<Rightarrow> world \<Rightarrow> error option \<times> world" where
  "fire (RevertEntering r) w =
     (None, if state_entered (roomObj w r) \<noteq> Entered
            then upd_room r (\<lambda>x. x\<lparr>state_entered := Not_entered\<rparr>) w else w)"
| "fire (Reconnect p roomName fromPeer) w =
     (if \<not> isConnected (peerObj w p) \<and> connectionRole (peerObj w p) = Some Answer
      then (let w1 = upd_peer p (\<lambda>x. x\<lparr>noNeedReconnect := True\<rparr>) w
            in case askPeerConnection roomName fromPeer w1 of
                 (Inl e, w2) \<Rightarrow> (Some e, w2)
               | (Inr pc, w2) \<Rightarrow> doOffer roomName fromPeer pc w2)
      else (None, w))"
| "fire (PromiseTimeout q) w = (None, reject q ''promise timeout'' w)"

text \<open>
  The timer the event loop runs next: the one with the earliest due time, and among
  those the one that was set first.
\<close>

fun earliest :: "(nat \<times> timer) list \<Rightarrow> (nat \<times> timer) option" where
  "earliest [] = None"
| "earliest (x # xs) =
     (case earliest xs of
        None \<Rightarrow> Some x
      | Some y \<Rightarrow> if fst y < fst x then Some y else Some x)"

lemma earliest_mem: "earliest ts = Some x \<Longrightarrow> x \<in> set ts"
  by (induction ts arbitrary: x) (auto split: option.splits if_splits)

lemma askPeerConnection_timers: "timers (snd (askPeerConnection rn pid w)) = timers w"
  by (simp add: askPeerConnection_def emit_def upd_peer_def Let_def split: option.splits)

lemma doOffer_timers: "timers (snd (doOffer rn pid pc w)) = timers w"
  by (simp add: doOffer_def createDataChannel_def initDataChannel_def rooms_get_def emit_def
      upd_peer_def Let_def split: option.splits prod.splits jsval.splits)

lemma fire_timers: "timers (snd (fire f w)) = timers w"
proof (cases f)
  case (RevertEntering r)
  then show ?thesis by (simp add: upd_room_def)
next
  case (Reconnect p rn pid)
  have "timers (snd (askPeerConnection rn pid (upd_peer p (\<lambda>x. x\<lparr>noNeedReconnect := True\<rparr>) w))) = timers w"
    by (simp add: askPeerConnection_timers upd_peer_def)
  then show ?thesis using Reconnect doOffer_timers
    by (auto split: prod.splits sum.splits)
next
  case (PromiseTimeout q)
  then show ?thesis by (simp add: reject_def)
qed

text \<open>
  One turn of the event loop for the timer \<open>x\<close>: it leaves the timer list, the clock is
  at its due time (or later, when it is overdue), and its callback runs; an exception
  thrown by the callback is reported and the loop goes on.
\<close>

definition run_timer :: "nat \<times> timer \<Rightarrow> world \<Rightarrow> world" where
  "run_timer x w =
     (let w1 = w\<lparr>timers := remove1 x (timers w), now := max (now w) (fst x)\<rparr>;
          res = fire (snd x) w1
      in case fst res of None \<Rightarrow> snd res | Some e \<Rightarrow> emit Uncaught (snd res))"

lemma timers_run_timer: "timers (run_timer x w) = remove1 x (timers w)"
  using fire_timers [of "snd x" "w\<lparr>timers := remove1 x (timers w), now := max (now w) (fst x)\<rparr>"]
  by (simp add: run_timer_def Let_def emit_def split: option.splits)

text \<open>The clock advances to \<open>t\<close>: every timer due by then runs, earliest first.\<close>

function run_until :: "nat \<Rightarrow> world \<Rightarrow> world" where
  "run_until t w =
     (case earliest (timers w) of
        None \<Rightarrow> w\<lparr>now := max (now w) t\<rparr>
      | Some x \<Rightarrow>
          if fst x \<le> t then run_until t (run_timer x w)
          else w\<lparr>now := max (now w) t\<rparr>)"
  by pat_completeness auto
termination
proof (relation "measure (\<lambda>(t, w). length (timers w))")
  show "wf (measure (\<lambda>(t, w). length (timers w)))" by simp
next
  fix t :: nat and w :: world and x
  assume e: "earliest (timers w) = Some x"
  have "x \<in> set (timers w)" using e by (rule earliest_mem)
  then have "length (remove1 x (timers w)) < length (timers w)"
    by (simp add: length_remove1) (cases "timers w"; auto)
  then show "((t, run_timer x w), (t, w)) \<in> measure (\<lambda>(t, w). length (timers w))"
    by (simp add: timers_run_timer)
qed

declare run_until.simps [simp del]

section \<open>P2PConnector: requests to the relay\<close>

definition notAcceptedResponse :: jsval where
  "notAcceptedResponse = JStr ''notAcceptedResponse_@)(%$#&#&''"

text \<open>
  \<^verbatim>\<open>promiseTimeout(ms, promise)\<close>: the returned promise is \<open>q\<close>; the timer rejects it after
  \<open>ms\<close> (rejecting a settled promise does nothing).
\<close>

definition promiseTimeout :: "nat \<Rightarrow> nat \<Rightarrow> world \<Rightarrow> world" where
  "promiseTimeout ms q w = setTimeout (PromiseTimeout q) ms w"

text \<open>
  \<^verbatim>\<open>request(request, handleResponse)\<close>: the closure \<^verbatim>\<open>f\<close> is pushed, \<^verbatim>\<open>request()\<close> is
  called, and the promise is wrapped in a timeout of 3000 ms. The result is the promise
  returned to the caller.
\<close>

definition request :: "(world \<Rightarrow> world) \<Rightarrow> (jsval \<Rightarrow> jsval) \<Rightarrow> world \<Rightarrow> nat \<times> world" where
  "request request' handleResponse' w =
     (let q = fresh w;
          f = \<lparr>mid = q, handleResponse = handleResponse'\<rparr>;
          w1 = w\<lparr>fresh := Suc q, promises := (promises w)(q := Pending),
                 signalingMessageAwaitings := signalingMessageAwaitings w @ [f]\<rparr>
      in (q, promiseTimeout 3000 q (request' w1)))"

text \<open>The two callers of \<^verbatim>\<open>request\<close>: \<^verbatim>\<open>getTmp\<close> and its matcher.\<close>

definition who_online_response :: "jsval \<Rightarrow> jsval" where
  "who_online_response msg =
     (if js_get msg ''type'' = JStr ''WHO_ONLINE'' then js_get msg ''remotePeerIds''
      else notAcceptedResponse)"

definition getTmp :: "world \<Rightarrow> nat \<times> world" where
  "getTmp w = request (sendSignalingMessage [JObj [(''type'', JStr ''WHO_ONLINE'')]]) who_online_response w"

text \<open>
  \<^verbatim>\<open>resolve(v)\<close> in \<^verbatim>\<open>f\<close>: the \<^verbatim>\<open>then\<close> callback of \<^verbatim>\<open>promiseTimeout\<close> clears the timer
  and resolves the returned promise (which does nothing once the timeout has rejected
  it). The callback is a microtask: it runs when the current handler ends, before any
  timer, and nothing in between reads what it writes.
\<close>

definition resolve :: "nat \<Rightarrow> jsval \<Rightarrow> world \<Rightarrow> world" where
  "resolve q v w =
     clearTimeout (PromiseTimeout q)
       (if promises w q = Pending then w\<lparr>promises := (promises w)(q := Resolved v)\<rparr> else w)"

text \<open>\<^verbatim>\<open>indexOf(f)\<close> on the matcher list and \<^verbatim>\<open>splice(i, 1)\<close>.\<close>

fun indexOf :: "matcher list \<Rightarrow> nat \<Rightarrow> nat option" where
  "indexOf [] m = None"
| "indexOf (f # fs) m = (if mid f = m then Some 0 else map_option Suc (indexOf fs m))"

definition splice1 :: "nat \<Rightarrow> 'a list \<Rightarrow> 'a list" where
  "splice1 i xs = take i xs @ drop (Suc i) xs"

text \<open>The closure \<^verbatim>\<open>f\<close> of \<^verbatim>\<open>request\<close>, called on a message.\<close>

definition run_matcher :: "matcher \<Rightarrow> jsval \<Rightarrow> world \<Rightarrow> world" where
  "run_matcher f msg w =
     (let v = handleResponse f msg
      in if v \<noteq> notAcceptedResponse
         then (let w1 = resolve (mid f) v w
               in case indexOf (signalingMessageAwaitings w1) (mid f) of
                    None \<Rightarrow> w1
                  | Some i \<Rightarrow> w1\<lparr>signalingMessageAwaitings := splice1 i (signalingMessageAwaitings w1)\<rparr>)
         else w)"

text \<open>
  \<^verbatim>\<open>this.signalingMessageAwaitings.forEach(f => f(msg))\<close>. \<^verbatim>\<open>forEach\<close> reads the length
  once, then visits the indices \<open>0 .. len - 1\<close> of the array as it is at each step, and
  skips an index that no longer exists.
\<close>

function forEach_awaitings :: "nat \<Rightarrow> nat \<Rightarrow> jsval \<Rightarrow> world \<Rightarrow> world" where
  "forEach_awaitings k len msg w =
     (if k < len
      then (if k < length (signalingMessageAwaitings w)
            then forEach_awaitings (Suc k) len msg (run_matcher (signalingMessageAwaitings w ! k) msg w)
            else forEach_awaitings (Suc k) len msg w)
      else w)"
  by pat_completeness auto
termination
  by (relation "measure (\<lambda>(k, len, msg, w). len - k)") auto

declare forEach_awaitings.simps [simp del]

section \<open>P2PConnector: inbound signaling messages\<close>

text \<open>
  What the connector is given by \<^verbatim>\<open>setup\<close> or calls on classes that are not part of
  these sources: \<^verbatim>\<open>sign\<close> (it returns the proving data as an object with the properties
  \<^verbatim>\<open>signatureHex\<close>, \<^verbatim>\<open>dataHex\<close>, \<^verbatim>\<open>publicKeyHex\<close>), \<^verbatim>\<open>heat.crypto.verifyBytes\<close>
  (\<open>None\<close> when it throws), \<^verbatim>\<open>room.createPeer\<close> and \<^verbatim>\<open>room.provenPublicKeyAllowed\<close>.
\<close>

record env =
  sign :: "jsval \<Rightarrow> jsval"
  verifyBytes :: "jsval \<Rightarrow> jsval \<Rightarrow> jsval \<Rightarrow> bool option"
  createPeer :: "room_ref \<Rightarrow> jsval \<Rightarrow> world \<Rightarrow> peer_ref option \<times> world"
  provenPublicKeyAllowed :: "room_ref \<Rightarrow> string \<Rightarrow> jsval \<Rightarrow> world \<Rightarrow> bool \<times> world"

text \<open>The \<^verbatim>\<open>forEach\<close> over \<^verbatim>\<open>msg.remotePeerIds\<close> of the \<^verbatim>\<open>WELCOME\<close> handler.\<close>

fun welcome_peers :: "env \<Rightarrow> room_ref \<Rightarrow> jsval \<Rightarrow> jsval list \<Rightarrow> world \<Rightarrow> error option \<times> world" where
  "welcome_peers E r roomName [] w = (None, w)"
| "welcome_peers E r roomName (peerId # rest) w =
     (case createPeer E r peerId w of
        (None, w1) \<Rightarrow> welcome_peers E r roomName rest w1
      | (Some p, w1) \<Rightarrow>
          if \<not> isConnected (peerObj w1 p)
          then (case askPeerConnection roomName peerId w1 of
                  (Inl e, w2) \<Rightarrow> (Some e, w2)
                | (Inr pc, w2) \<Rightarrow>
                    (case doOffer roomName peerId pc w2 of
                       (Some e, w3) \<Rightarrow> (Some e, w3)
                     | (None, w3) \<Rightarrow> welcome_peers E r roomName rest w3))
          else welcome_peers E r roomName rest w1)"

text \<open>\<^verbatim>\<open>this.pendingRooms.forEach(f => f())\<close>: the queued closures never touch the queue.\<close>

fun run_pendingRooms :: "room_ref list \<Rightarrow> world \<Rightarrow> world" where
  "run_pendingRooms [] w = w"
| "run_pendingRooms (r # rs) w = run_pendingRooms rs (requestEnterRoom r w)"

text \<open>
  The handlers of \<^verbatim>\<open>onSignalingMessage\<close>, one for each message type with a body of its
  own (lines 222-228, 237-246, 247-266, 267-282 and 283-308). \<open>roomName\<close> is \<^verbatim>\<open>msg.room\<close>.
  The promise callbacks they register (of \<^verbatim>\<open>setRemoteDescription\<close> and of
  \<^verbatim>\<open>addIceCandidate\<close>) run on later events.
\<close>

definition on_approved_identity :: "world \<Rightarrow> world" where
  "on_approved_identity w =
     (let w1 = w\<lparr>identity := pendingIdentity w\<rparr>;
          w2 = (run_pendingRooms (pendingRooms w1) w1)\<lparr>pendingRooms := []\<rparr>;
          w3 = (case pendingOnlineStatus w2 of None \<Rightarrow> w2
                | Some status \<Rightarrow> sendOnlineStatus status w2)
      in w3\<lparr>pendingOnlineStatus := None\<rparr>)"

definition on_welcome :: "env \<Rightarrow> jsval \<Rightarrow> jsval \<Rightarrow> world \<Rightarrow> error option \<times> world" where
  "on_welcome E roomName msg w =
     (case rooms_get w roomName of
        None \<Rightarrow> (Some TypeError, w)
      | Some r \<Rightarrow>
          (let w1 = upd_room r (\<lambda>x. x\<lparr>state_entered := Entered\<rparr>) w
           in case js_get msg ''remotePeerIds'' of
                JArr ids \<Rightarrow> welcome_peers E r roomName ids w1
              | _ \<Rightarrow> (Some TypeError, w1)))"

definition on_offer :: "env \<Rightarrow> jsval \<Rightarrow> jsval \<Rightarrow> world \<Rightarrow> error option \<times> world" where
  "on_offer E roomName msg w =
     (case rooms_get w roomName of
        None \<Rightarrow> (Some TypeError, w)
      | Some r \<Rightarrow>
          (case createPeer E r (js_get msg ''fromPeer'') w of
             (None, w1) \<Rightarrow> (None, w1)
           | (Some p, w1) \<Rightarrow>
               if \<not> isConnected (peerObj w1 p)
               then (case askPeerConnection roomName (js_get msg ''fromPeer'') w1 of
                       (Inl e, w2) \<Rightarrow> (Some e, w2)
                     | (Inr None, w2) \<Rightarrow> (None, w2)
                     | (Inr (Some pc), w2) \<Rightarrow> (None, emit (PcSetRemoteDescription pc msg) w2))
               else (None, w1)))"

definition on_answer :: "jsval \<Rightarrow> jsval \<Rightarrow> world \<Rightarrow> error option \<times> world" where
  "on_answer roomName msg w =
     (case rooms_get w roomName of
        None \<Rightarrow> (Some TypeError, w)
      | Some r \<Rightarrow>
          (case getPeer (roomObj w r) (js_get msg ''fromPeer'') of
             None \<Rightarrow> (None, w)
           | Some p \<Rightarrow>
               if \<not> isConnected (peerObj w p)
               then (case peerConnection (peerObj w p) of
                       None \<Rightarrow> (None, w)
                     | Some pc \<Rightarrow> (None, emit (PcSetRemoteDescription pc msg) w))
               else (None, w)))"

definition on_candidate :: "jsval \<Rightarrow> jsval \<Rightarrow> world \<Rightarrow> error option \<times> world" where
  "on_candidate roomName msg w =
     (case rooms_get w roomName of
        None \<Rightarrow> (Some TypeError, w)
      | Some r \<Rightarrow>
          (case getPeer (roomObj w r) (js_get msg ''fromPeer'') of
             None \<Rightarrow> (Some TypeError, w)
           | Some p \<Rightarrow>
               (case peerConnection (peerObj w p) of
                  None \<Rightarrow> (Some TypeError, w)
                | Some pc \<Rightarrow>
                    (let w1 = emit (PcAddIceCandidate pc (js_get msg ''label'')
                                      (js_get msg ''candidate'')) w
                     in if \<not> noNeedReconnect (peerObj w1 p)
                        then (None, setTimeout (Reconnect p roomName (js_get msg ''fromPeer'')) 2500 w1)
                        else (None, w1)))))"

text \<open>
  \<^verbatim>\<open>onSignalingMessage\<close>. The frame is \<^verbatim>\<open>JSON.parse(message.data)\<close>, \<open>None\<close> when parsing
  throws. The callback of the incoming-call confirmation runs on a later event.
\<close>

definition onSignalingMessage :: "env \<Rightarrow> jsval option \<Rightarrow> world \<Rightarrow> error option \<times> world" where
  "onSignalingMessage E frame w =
     (if onlineStatus w = Offline then (None, w)
      else case frame of
        None \<Rightarrow> (Some SyntaxError, w)
      | Some msg \<Rightarrow>
         if msg = JNull then (Some TypeError, w)
         else
          (let roomName = js_get msg ''room''; ty = js_get msg ''type'' in
           if ty = JStr ''PONG'' then (None, w)
           else if ty = JStr ''PROVE_IDENTITY'' then
             (None, sendSignalingMessage
                      [set_prop (sign E (js_get msg ''data'')) ''type'' (JStr ''PROOF_IDENTITY'')] w)
           else if ty = JStr ''APPROVED_IDENTITY'' then (None, on_approved_identity w)
           else if ty = JStr ''CALL'' then
             (None, emit (ConfirmIncomingCall (js_get msg ''caller'') roomName) w)
           else if ty = JStr ''ERROR'' then
             (None, emit (SignalingError (js_get msg ''reason'')) w)
           else if ty = JStr ''WELCOME'' then on_welcome E roomName msg w
           else if ty = JStr ''offer'' then on_offer E roomName msg w
           else if ty = JStr ''answer'' then on_answer roomName msg w
           else if ty = JStr ''candidate'' then on_candidate roomName msg w
           else if ty = JStr ''WRONGROOM'' then (None, w)
           else (None, forEach_awaitings 0 (length (signalingMessageAwaitings w)) msg w)))"

section \<open>P2PConnector: data channels and the proof of identity between peers\<close>













section \<open>P2PMessaging: entering the room shared with a peer\<close>

text \<open>
  Modelled from the spec: the constructor of \<^verbatim>\<open>Room\<close> is missing from the sources. By the
  spec a room is created idle and not approved, with no peers and no pending proof, and
  with the given list as its membership allow-list. \<^verbatim>\<open>setupRoom\<close> then sets the hooks for
  the opening and the closing of a data channel.
\<close>

definition new_Room :: "string \<Rightarrow> string list \<Rightarrow> room" where
  "new_Room roomName members =
     \<lparr>name = roomName, state_entered = Not_entered, state_approved = False,
      proofData = None, memberPublicKeys = members, peers = Map.empty,
      onRejected = False, onOpenDataChannel = True\<rparr>"

text \<open>
  Modelled from the spec: \<^verbatim>\<open>Room.enter()\<close> is missing from the sources; by the spec it is
  \<^verbatim>\<open>enter(room, forceReEnter = false)\<close> of the connector.
\<close>

definition Room_enter :: "room_ref \<Rightarrow> world \<Rightarrow> world" where
  "Room_enter r w = enter r False w"

text \<open>
  \<^verbatim>\<open>P2PMessaging.enterRoom\<close>; the result \<open>None\<close> is \<^verbatim>\<open>null\<close>. The messenger reads its
  online status from the connector, which it has created when the user unlocked.
\<close>

definition enterRoom :: "(string \<Rightarrow> string) \<Rightarrow> string \<Rightarrow> string \<Rightarrow> world \<Rightarrow> room_ref option \<times> world" where
  "enterRoom getAccountIdFromPublicKey userPublicKey peerId w =
     (if onlineStatus w = Offline then (None, w)
      else
        (let roomName = generateOneToOneRoomName getAccountIdFromPublicKey userPublicKey peerId;
             rw = (case rooms w roomName of
                     Some r \<Rightarrow> (r, w)
                   | None \<Rightarrow>
                       (let r = fresh w
                        in (r, w\<lparr>fresh := Suc r,
                                  roomObj := (roomObj w)(r := new_Room roomName [peerId]),
                                  rooms := (rooms w)(roomName \<mapsto> r)\<rparr>)));
             r = fst rw; w1 = snd rw
         in (Some r, if state_entered (roomObj w1 r) = Not_entered then Room_enter r w1 else w1)))"

section \<open>A new connector\<close>

text \<open>
  The connector as its constructor leaves it: no rooms, no identity, nothing pending and
  the online status \<^verbatim>\<open>"offline"\<close>. No timer is set, and the object stores hold blank
  objects.
\<close>

definition blank_peer :: peer where
  "blank_peer = \<lparr>peerConnection = None, dataChannel = None, connectionRole = None,
                  noNeedReconnect = False, isConnected = False\<rparr>"

definition new_P2PConnector :: world where
  "new_P2PConnector =
     \<lparr>rooms = Map.empty, signalingMessageAwaitings = [], pendingIdentity = None, identity = None,
      pendingRooms = [], pendingOnlineStatus = None, onlineStatus = Offline,
      roomObj = (\<lambda>r. new_Room [] []), peerObj = (\<lambda>p. blank_peer),
      chanObj = (\<lambda>c. \<lparr>label = [], readyState = Connecting\<rparr>),
      iceConnectionState = (\<lambda>pc. ''new''), rtcSupported = True,
      now = 0, timers = [], promises = (\<lambda>q. Pending), fresh = 0, out = []\<rparr>"

text \<open>
  \<^verbatim>\<open>P2PConnector.setup\<close>: the identity is kept as pending; the callbacks are the
  parameters \<open>env\<close>.
\<close>

definition setup_connector :: "string option \<Rightarrow> world \<Rightarrow> world" where
  "setup_connector identity' w = w\<lparr>pendingIdentity := identity'\<rparr>"

section \<open>Example callbacks, states and messages\<close>

text \<open>
  Callbacks to run the connector with: a toy signature scheme in which the signature of
  the data \<open>d\<close> under the key \<open>k\<close> is the string \<open>k:d\<close> and the local key is \<open>alice\<close>; a
  room that creates no peer on its own and allows every proven key.
\<close>

definition demo_env :: env where
  "demo_env =
     \<lparr>sign = (\<lambda>d. JObj [(''signatureHex'', JStr (''alice:'' @ the_str d)), (''dataHex'', d),
                          (''publicKeyHex'', JStr ''alice'')]),
      verifyBytes = (\<lambda>s d k. Some (s = JStr (the_str k @ '':'' @ the_str d))),
      createPeer = (\<lambda>r peerId w. (None, w)),
      provenPublicKeyAllowed = (\<lambda>r peerId k w. (True, w))\<rparr>"

text \<open>
  A connector in use: online, with the identity \<open>alice\<close> approved, and the room shared with
  \<open>bob\<close> in the store but not entered.
\<close>

definition demo_world :: world where
  "demo_world = new_P2PConnector
     \<lparr>pendingIdentity := Some ''alice'', identity := Some ''alice'', onlineStatus := Online,
      roomObj := (\<lambda>r. new_Room ''1-2'' [''bob''])\<rparr>"


text \<open>
  \<open>n\<close> requests made one after the other, each left unanswered until the clock
  reaches its timeout.
\<close>

fun timed_out_requests :: "nat \<Rightarrow> jsval list \<Rightarrow> (jsval \<Rightarrow> jsval) \<Rightarrow> world \<Rightarrow> world" where
  "timed_out_requests 0 m h w = w"
| "timed_out_requests (Suc n) m h w =
     timed_out_requests n m h (run_until (now w + 3000) (snd (request (sendSignalingMessage m) h w)))"



section \<open>Observations on the calls made\<close>

text \<open>The join requests (batches with a \<^verbatim>\<open>ROOM\<close> message) among the calls made so far.\<close>

fun is_join_request :: "effect \<Rightarrow> bool" where
  "is_join_request (SendSignalingMessage ms) = list_ex (\<lambda>m. js_get m ''type'' = JStr ''ROOM'') ms"
| "is_join_request e = False"

definition join_requests :: "world \<Rightarrow> effect list" where
  "join_requests w = filter is_join_request (out w)"



section \<open>Runs of the connector\<close>

text \<open>
  What happens to a connector from outside: a frame arrives on the signaling socket, the
  clock advances by some milliseconds (and the timers due run), or the connected flag of
  a peer changes.
\<close>

datatype event = Signal "jsval option" | Tick nat | Connected peer_ref bool

fun step :: "env \<Rightarrow> event \<Rightarrow> world \<Rightarrow> world" where
  "step E (Signal frame) w = snd (onSignalingMessage E frame w)"
| "step E (Tick ms) w = run_until (now w + ms) w"
| "step E (Connected p b) w = upd_peer p (\<lambda>x. x\<lparr>isConnected := b\<rparr>) w"

fun run :: "env \<Rightarrow> event list \<Rightarrow> world \<Rightarrow> world" where
  "run E [] w = w"
| "run E (ev # evs) w = run E evs (step E ev w)"

text \<open>The inbound frames of the event are candidate messages (or cannot be parsed).\<close>

fun candidate_event :: "event \<Rightarrow> bool" where
  "candidate_event (Signal frame) =
     (case frame of None \<Rightarrow> True | Some msg \<Rightarrow> js_get msg ''type'' = JStr ''candidate'')"
| "candidate_event ev = True"

text \<open>The peer that \<^verbatim>\<open>this.rooms.get(roomName).getPeer(peerId)\<close> finds.\<close>

definition peer_of :: "world \<Rightarrow> jsval \<Rightarrow> jsval \<Rightarrow> peer_ref option" where
  "peer_of w roomName peerId =
     (case rooms_get w roomName of None \<Rightarrow> None | Some r \<Rightarrow> getPeer (roomObj w r) peerId)"

text \<open>
  The offers created for the peer \<open>p\<close>: the calls of \<^verbatim>\<open>createOffer\<close> whose room and peer
  id name \<open>p\<close>, and their number among the calls made so far.
\<close>

fun is_offer_to :: "world \<Rightarrow> peer_ref \<Rightarrow> effect \<Rightarrow> bool" where
  "is_offer_to w p (PcCreateOffer pc roomName peerId) = (peer_of w roomName peerId = Some p)"
| "is_offer_to w p e = False"

definition offers_to :: "world \<Rightarrow> peer_ref \<Rightarrow> world \<Rightarrow> nat" where
  "offers_to w0 p w = length (filter (is_offer_to w0 p) (out w))"

text \<open>
  A reconnection timer is consistent when the peer it captured is the one its room name
  and peer id lead to, as it is when the timer is set.
\<close>

fun timer_ok :: "world \<Rightarrow> timer \<Rightarrow> bool" where
  "timer_ok w (Reconnect p roomName peerId) = (peer_of w roomName peerId = Some p)"
| "timer_ok w f = True"

definition timers_ok :: "world \<Rightarrow> bool" where
  "timers_ok w = list_all (\<lambda>x. timer_ok w (snd x)) (timers w)"

text \<open>The rooms map and the peers of every room are those of \<open>w0\<close>.\<close>

definition same_peers :: "world \<Rightarrow> world \<Rightarrow> bool" where
  "same_peers w0 s = (rooms s = rooms w0 \<and> (\<forall>r. peers (roomObj s r) = peers (roomObj w0 r)))"

text \<open>
  What holds along a run for the peer \<open>p\<close>, with \<open>n\<close> offers made for it at the start: no
  further offer yet, or one further offer and \<open>p\<close> is no longer an answerer.
\<close>

definition reconnect_inv :: "world \<Rightarrow> peer_ref \<Rightarrow> nat \<Rightarrow> world \<Rightarrow> bool" where
  "reconnect_inv w0 p n s =
     (same_peers w0 s \<and> list_all (\<lambda>x. timer_ok w0 (snd x)) (timers s)
      \<and> (offers_to w0 p s = n
           \<or> (offers_to w0 p s = Suc n \<and> connectionRole (peerObj s p) \<noteq> Some Answer)))"

text \<open>
  The connector after it answered an offer of \<open>bob\<close>: a connection was created for him
  and he is an answerer. And a candidate message from him.
\<close>

definition demo_answerer_world :: world where
  "demo_answerer_world =
     snd (doAnswer (JStr ''1-2'') (JStr ''bob'') 0
       (snd (askPeerConnection (JStr ''1-2'') (JStr ''bob'')
          (demo_world
             \<lparr>rooms := [''1-2'' \<mapsto> 0],
              roomObj := (\<lambda>r. (new_Room ''1-2'' [''bob''])\<lparr>peers := [''bob'' \<mapsto> 0]\<rparr>)\<rparr>))))"

definition candidate_msg :: jsval where
  "candidate_msg = JObj [(''type'', JStr ''candidate''), (''room'', JStr ''1-2''),
                         (''fromPeer'', JStr ''bob''), (''label'', JNum 0),
                         (''candidate'', JStr ''candidate:1 1 UDP 1 10.0.0.1 9 typ host'')]"

section \<open>Properties of the event loop\<close>

lemma earliest_None: "earliest ts = None \<longleftrightarrow> ts = []"
  by (cases ts) (auto split: option.splits)

lemma earliest_le: "earliest ts = Some x \<Longrightarrow> y \<in> set ts \<Longrightarrow> fst x \<le> fst y"
  by (induction ts arbitrary: x) (fastforce simp: earliest_None split: option.splits if_splits)+

lemma run_until_None: "earliest (timers w) = None \<Longrightarrow> run_until t w = w\<lparr>now := max (now w) t\<rparr>"
  by (subst run_until.simps) simp

lemma run_until_late: "earliest (timers w) = Some x \<Longrightarrow> \<not> fst x \<le> t \<Longrightarrow> run_until t w = w\<lparr>now := max (now w) t\<rparr>"
  by (subst run_until.simps) simp

lemma run_until_due: "earliest (timers w) = Some x \<Longrightarrow> fst x \<le> t \<Longrightarrow> run_until t w = run_until t (run_timer x w)"
  by (subst run_until.simps) simp

lemma run_until_inv:
  assumes "P w"
    and step: "\<And>x w. P w \<Longrightarrow> x \<in> set (timers w) \<Longrightarrow> P (run_timer x w)"
    and clock: "\<And>w n. P w \<Longrightarrow> P (w\<lparr>now := n\<rparr>)"
  shows "P (run_until t w)"
  using assms(1)
proof (induction t w rule: run_until.induct)
  case (1 t w)
  show ?case
  proof (cases "earliest (timers w)")
    case None
    then show ?thesis using 1 clock by (simp add: run_until_None)
  next
    case (Some x)
    show ?thesis
    proof (cases "fst x \<le> t")
      case True
      have "P (run_timer x w)" using step [OF "1.prems"] earliest_mem [OF Some] by blast
      then show ?thesis using "1.IH" [OF Some True] Some True by (simp add: run_until_due)
    next
      case False
      then show ?thesis using Some 1 clock by (simp add: run_until_late)
    qed
  qed
qed

lemma askPeerConnection_frame:
  "rooms (snd (askPeerConnection rn pid w)) = rooms w \<and> roomObj (snd (askPeerConnection rn pid w)) = roomObj w
   \<and> identity (snd (askPeerConnection rn pid w)) = identity w"
  by (simp add: askPeerConnection_def emit_def upd_peer_def Let_def split: option.splits)

lemma doOffer_frame:
  "rooms (snd (doOffer rn pid pc w)) = rooms w \<and> roomObj (snd (doOffer rn pid pc w)) = roomObj w
   \<and> identity (snd (doOffer rn pid pc w)) = identity w"
  by (simp add: doOffer_def createDataChannel_def initDataChannel_def rooms_get_def emit_def
      upd_peer_def Let_def split: option.splits prod.splits jsval.splits)

lemma fire_frame:
  "rooms (snd (fire f w)) = rooms w \<and> identity (snd (fire f w)) = identity w
   \<and> (\<forall>r. name (roomObj (snd (fire f w)) r) = name (roomObj w r))"
proof (cases f)
  case (RevertEntering r)
  then show ?thesis by (simp add: upd_room_def)
next
  case (Reconnect p rn pid)
  show ?thesis using Reconnect
      askPeerConnection_frame [of rn pid "upd_peer p (\<lambda>x. x\<lparr>noNeedReconnect := True\<rparr>) w"]
      doOffer_frame [of rn pid _ "snd (askPeerConnection rn pid (upd_peer p (\<lambda>x. x\<lparr>noNeedReconnect := True\<rparr>) w))"]
    by (auto simp: upd_peer_def split: prod.splits sum.splits)
next
  case (PromiseTimeout q)
  then show ?thesis by (simp add: reject_def)
qed

lemma fire_entered:
  "state_entered (roomObj (snd (fire f w)) r) =
     (if f = RevertEntering r \<and> state_entered (roomObj w r) \<noteq> Entered then Not_entered
      else state_entered (roomObj w r))"
proof (cases f)
  case (RevertEntering r')
  then show ?thesis by (auto simp add: upd_room_def)
next
  case (Reconnect p rn pid)
  show ?thesis using Reconnect
      askPeerConnection_frame [of rn pid "upd_peer p (\<lambda>x. x\<lparr>noNeedReconnect := True\<rparr>) w"]
      doOffer_frame [of rn pid _ "snd (askPeerConnection rn pid (upd_peer p (\<lambda>x. x\<lparr>noNeedReconnect := True\<rparr>) w))"]
    by (auto simp: upd_peer_def split: prod.splits sum.splits)
next
  case (PromiseTimeout q)
  then show ?thesis by (simp add: reject_def)
qed

section \<open>Entering a room\<close>

lemma enter_while_entering:
  assumes "state_entered (roomObj w r) = Entering"
  shows "join_requests (enter r e w) = join_requests w \<and> timers (enter r e w) = timers w
         \<and> state_entered (roomObj (enter r e w) r) = Entering"
  using assms
  by (auto simp: enter_def Let_def requestEnterRoom_def upd_room_def sendSignalingMessage_def
      emit_def join_requests_def setTimeout_def split: option.splits)

lemma enter_sends_join_request:
  assumes "truthy_str (identity w)" and "state_entered (roomObj w r) = Not_entered"
    and "e \<or> (case rooms w (name (roomObj w r)) of None \<Rightarrow> True
                 | Some x \<Rightarrow> state_entered (roomObj w x) \<noteq> Entered)"
  shows "out (enter r e w) = out w @ [SendSignalingMessage [room_msg (name (roomObj w r))]]
         \<and> timers (enter r e w) = timers w @ [(now w + 4000, RevertEntering r)]
         \<and> state_entered (roomObj (enter r e w) r) = Entering
         \<and> rooms (enter r e w) (name (roomObj w r)) = Some r
         \<and> name (roomObj (enter r e w) r) = name (roomObj w r)
         \<and> identity (enter r e w) = identity w \<and> now (enter r e w) = now w"
  using assms
  by (auto simp: enter_def Let_def requestEnterRoom_def upd_room_def sendSignalingMessage_def
      emit_def setTimeout_def split: option.splits)

lemma enter_again_unchanged:
  assumes "truthy_str (identity w)" and "state_entered (roomObj w r) = Entering"
    and "rooms w (name (roomObj w r)) = Some r"
  shows "out (enter r e w) = out w \<and> rooms (enter r e w) = rooms w
       \<and> name (roomObj (enter r e w) r) = name (roomObj w r)
       \<and> identity (enter r e w) = identity w \<and> now (enter r e w) = now w"
  using assms
  by (auto simp: enter_def Let_def requestEnterRoom_def upd_room_def sendSignalingMessage_def
      emit_def setTimeout_def split: option.splits)

lemma run_timer_fire:
  "roomObj (run_timer x w) = roomObj (snd (fire (snd x) (w\<lparr>timers := remove1 x (timers w), now := max (now w) (fst x)\<rparr>)))
   \<and> rooms (run_timer x w) = rooms (snd (fire (snd x) (w\<lparr>timers := remove1 x (timers w), now := max (now w) (fst x)\<rparr>)))
   \<and> identity (run_timer x w) = identity (snd (fire (snd x) (w\<lparr>timers := remove1 x (timers w), now := max (now w) (fst x)\<rparr>)))
   \<and> peerObj (run_timer x w) = peerObj (snd (fire (snd x) (w\<lparr>timers := remove1 x (timers w), now := max (now w) (fst x)\<rparr>)))"
  by (simp add: run_timer_def Let_def emit_def split: option.splits)

lemma run_timer_entered:
  "state_entered (roomObj (run_timer x w) r) =
     (if snd x = RevertEntering r \<and> state_entered (roomObj w r) \<noteq> Entered then Not_entered
      else state_entered (roomObj w r))"
  using fire_entered [of "snd x" "w\<lparr>timers := remove1 x (timers w), now := max (now w) (fst x)\<rparr>" r]
  by (simp add: run_timer_fire del: fire.simps)

lemma run_timer_frame:
  "rooms (run_timer x w) = rooms w \<and> identity (run_timer x w) = identity w
   \<and> (\<forall>r. name (roomObj (run_timer x w) r) = name (roomObj w r))"
  using fire_frame [of "snd x" "w\<lparr>timers := remove1 x (timers w), now := max (now w) (fst x)\<rparr>"]
  by (simp add: run_timer_fire del: fire.simps)

lemma run_until_frame:
  "rooms (run_until t w) = rooms w \<and> identity (run_until t w) = identity w
   \<and> (\<forall>r. name (roomObj (run_until t w) r) = name (roomObj w r))"
  by (rule run_until_inv [where P = "\<lambda>s. rooms s = rooms w \<and> identity s = identity w
        \<and> (\<forall>r. name (roomObj s r) = name (roomObj w r))"])
     (simp_all add: run_timer_frame)

lemma not_entered_stays:
  "state_entered (roomObj w r) = Not_entered \<Longrightarrow> state_entered (roomObj (run_until t w) r) = Not_entered"
  by (rule run_until_inv [where P = "\<lambda>s. state_entered (roomObj s r) = Not_entered"])
     (simp_all add: run_timer_entered)

lemma revert_fires:
  "state_entered (roomObj w r) \<noteq> Entered \<Longrightarrow> (d, RevertEntering r) \<in> set (timers w) \<Longrightarrow> d \<le> t
   \<Longrightarrow> state_entered (roomObj (run_until t w) r) = Not_entered"
proof (induction t w rule: run_until.induct)
  case (1 t w)
  from "1.prems"(2) obtain x where x: "earliest (timers w) = Some x"
    by (cases "earliest (timers w)") (auto simp: earliest_None)
  have le: "fst x \<le> t" using earliest_le [OF x "1.prems"(2)] "1.prems"(3) by simp
  have run: "run_until t w = run_until t (run_timer x w)" using x le by (rule run_until_due)
  show ?case
  proof (cases "snd x = RevertEntering r")
    case True
    then have "state_entered (roomObj (run_timer x w) r) = Not_entered"
      using "1.prems"(1) by (simp add: run_timer_entered)
    then show ?thesis using run not_entered_stays by simp
  next
    case False
    then have "x \<noteq> (d, RevertEntering r)" by auto
    then have "(d, RevertEntering r) \<in> set (timers (run_timer x w))"
      using "1.prems"(2) by (simp add: timers_run_timer)
    moreover have "state_entered (roomObj (run_timer x w) r) \<noteq> Entered"
      using "1.prems"(1) False by (simp add: run_timer_entered)
    ultimately show ?thesis using "1.IH" [OF x le] "1.prems"(3) run by simp
  qed
qed

text \<open>
  C4. With the identity approved, a first \<open>enter\<close> of a room that is not entered sends the
  join request (one batch with the message of type \<open>ROOM\<close> that names the room) and makes
  the room entering; a second \<open>enter\<close> then sends nothing; when
  the clock reaches 4000 ms after the first \<open>enter\<close> and no \<open>WELCOME\<close> came, the room is
  back to not entered (and, no other timer pending, it is still entering at any earlier
  time); the next \<open>enter\<close> sends the join request again. In every state, \<open>enter\<close> on an
  entering room adds no join request.
\<close>

theorem enter_twice_then_timeout:
  assumes ident: "truthy_str (identity w)"
    and st: "state_entered (roomObj w r) = Not_entered"
    and reg: "enforce1 \<or> (case rooms w (name (roomObj w r)) of None \<Rightarrow> True
                            | Some x \<Rightarrow> state_entered (roomObj w x) \<noteq> Entered)"
  shows "(let w1 = enter r enforce1 w; w2 = enter r enforce2 w1;
              w3 = run_until (now w + 4000) w2; w4 = enter r enforce3 w3;
              join = SendSignalingMessage
                       [JObj [(''type'', JStr ''ROOM''), (''room'', JStr (name (roomObj w r)))]]
          in is_join_request join
             \<and> out w1 = out w @ [join] \<and> join_requests w1 = join_requests w @ [join]
             \<and> state_entered (roomObj w1 r) = Entering
             \<and> out w2 = out w1 \<and> join_requests w2 = join_requests w1
             \<and> state_entered (roomObj w2 r) = Entering
             \<and> (\<forall>t. timers w = [] \<longrightarrow> t < now w + 4000 \<longrightarrow>
                    state_entered (roomObj (run_until t w2) r) = Entering)
             \<and> state_entered (roomObj w3 r) = Not_entered
             \<and> out w4 = out w3 @ [join] \<and> join_requests w4 = join_requests w3 @ [join])
         \<and> (\<forall>s e. state_entered (roomObj s r) = Entering \<longrightarrow>
                 join_requests (enter r e s) = join_requests s \<and> timers (enter r e s) = timers s)"
proof -
  define w1 where "w1 = enter r enforce1 w"
  define w2 where "w2 = enter r enforce2 w1"
  define w3 where "w3 = run_until (now w + 4000) w2"
  define join where "join = SendSignalingMessage [room_msg (name (roomObj w r))]"
  note first = enter_sends_join_request [OF ident st reg, folded w1_def join_def]
  have id1: "truthy_str (identity w1)" using first ident by simp
  have reg1: "rooms w1 (name (roomObj w1 r)) = Some r" using first by simp
  have ent1: "state_entered (roomObj w1 r) = Entering" using first by simp
  note again = enter_again_unchanged [OF id1 ent1 reg1, of enforce2, folded w2_def]
  note again' = enter_while_entering [OF ent1, of enforce2, folded w2_def]
  have tm2: "timers w2 = timers w @ [(now w + 4000, RevertEntering r)]"
    using again' first by simp
  have ent2: "state_entered (roomObj w2 r) = Entering" using again' by simp
  have early: "state_entered (roomObj (run_until t w2) r) = Entering"
    if "timers w = []" "t < now w + 4000" for t
  proof -
    have "earliest (timers w2) = Some (now w + 4000, RevertEntering r)"
      using tm2 that by simp
    then have "run_until t w2 = w2\<lparr>now := max (now w2) t\<rparr>"
      using that by (intro run_until_late) auto
    then show ?thesis using ent2 by simp
  qed
  have ent3: "state_entered (roomObj w3 r) = Not_entered"
    unfolding w3_def
    by (rule revert_fires [where d = "now w + 4000"]) (simp_all add: ent2 tm2)
  have fr3: "rooms w3 = rooms w2 \<and> identity w3 = identity w2
             \<and> (\<forall>x. name (roomObj w3 x) = name (roomObj w2 x))"
    unfolding w3_def by (rule run_until_frame)
  have nm3: "name (roomObj w3 r) = name (roomObj w r)" using fr3 again first by simp
  have id3: "truthy_str (identity w3)" using fr3 again id1 by simp
  have reg3: "enforce3 \<or> (case rooms w3 (name (roomObj w3 r)) of None \<Rightarrow> True
                            | Some x \<Rightarrow> state_entered (roomObj w3 x) \<noteq> Entered)"
    using fr3 again reg1 ent3 by simp
  have retry: "out (enter r enforce3 w3) = out w3 @ [join]"
    using enter_sends_join_request [OF id3 ent3 reg3] nm3 by (simp add: join_def)
  have general: "\<forall>s e. state_entered (roomObj s r) = Entering \<longrightarrow>
        join_requests (enter r e s) = join_requests s \<and> timers (enter r e s) = timers s"
    using enter_while_entering by blast
  have ij: "is_join_request join" by (simp add: join_def room_msg_def)
  have j1: "join_requests w1 = join_requests w @ [join]"
    using first ij by (simp add: join_requests_def)
  have j2: "join_requests w2 = join_requests w1" using again by (simp add: join_requests_def)
  have j4: "join_requests (enter r enforce3 w3) = join_requests w3 @ [join]"
    using retry ij by (simp add: join_requests_def)
  show ?thesis
    unfolding Let_def
    using ij first j1 ent1 again j2 ent2 early ent3 retry j4 general
    unfolding w1_def w2_def w3_def join_def room_msg_def by blast
qed

theorem enter_twice_then_timeout_witness:
  "out (enter 0 False demo_world)
     = [SendSignalingMessage [JObj [(''type'', JStr ''ROOM''), (''room'', JStr ''1-2'')]]]
   \<and> state_entered (roomObj (enter 0 False demo_world) 0) = Entering
   \<and> out (enter 0 False (enter 0 False demo_world)) = out (enter 0 False demo_world)
   \<and> state_entered (roomObj (run_until (now demo_world + 4000)
        (enter 0 False (enter 0 False demo_world))) 0) = Not_entered"
proof -
  have h1: "truthy_str (identity demo_world)"
    by (simp add: demo_world_def truthy_str_def)
  have h2: "state_entered (roomObj demo_world 0) = Not_entered"
    by (simp add: demo_world_def new_Room_def)
  have h3: "False \<or> (case rooms demo_world (name (roomObj demo_world 0)) of None \<Rightarrow> True
                      | Some x \<Rightarrow> state_entered (roomObj demo_world x) \<noteq> Entered)"
    by (simp add: demo_world_def new_P2PConnector_def)
  have n: "name (roomObj demo_world 0) = ''1-2''" "out demo_world = []"
    by (simp_all add: demo_world_def new_P2PConnector_def new_Room_def)
  note T = enter_twice_then_timeout [OF h1 h2 h3, of False False, unfolded Let_def n append_Nil]
  have a: "out (enter 0 False demo_world)
     = [SendSignalingMessage [JObj [(''type'', JStr ''ROOM''), (''room'', JStr ''1-2'')]]]"
    using T by blast
  have b: "state_entered (roomObj (enter 0 False demo_world) 0) = Entering"
    "out (enter 0 False (enter 0 False demo_world)) = out (enter 0 False demo_world)"
    "state_entered (roomObj (run_until (now demo_world + 4000)
        (enter 0 False (enter 0 False demo_world))) 0) = Not_entered"
    using T by blast+
  show ?thesis using a b by blast
qed

text \<open>
  C10. While the online status is offline, \<open>onSignalingMessage\<close> returns at once for
  every frame, parsable or not: no exception, and the whole state (identity, rooms, room
  states, queues, matchers, timers, calls made) is unchanged. \<open>setOnlineStatus\<close> with
  offline puts the connector in that status.
\<close>

theorem offline_drops_signaling:
  "(onlineStatus w = Offline \<longrightarrow> onSignalingMessage E frame w = (None, w))
   \<and> onlineStatus (setOnlineStatus Offline w) = Offline"
  by (simp add: onSignalingMessage_def setOnlineStatus_def Let_def sendOnlineStatus_def
      sendSignalingMessage_def emit_def)

theorem offline_drops_signaling_witness:
  "onSignalingMessage demo_env (Some (JObj [(''type'', JStr ''WELCOME''), (''room'', JStr ''1-2'')]))
     (setOnlineStatus Offline demo_world) = (None, setOnlineStatus Offline demo_world)"
proof -
  have "onlineStatus (setOnlineStatus Offline demo_world) = Offline"
    using offline_drops_signaling [of demo_world] by simp
  then show ?thesis
    using offline_drops_signaling [of "setOnlineStatus Offline demo_world"] by simp
qed

text \<open>
  C9. While the online status is offline, \<open>enterRoom\<close> returns \<open>null\<close> and leaves the
  state as it is: no room is created or registered and nothing is sent.
\<close>

theorem enterRoom_offline_returns_null:
  "onlineStatus w = Offline \<Longrightarrow> enterRoom acc userPublicKey peerId w = (None, w)"
  by (simp add: enterRoom_def)

theorem enterRoom_offline_returns_null_witness:
  "enterRoom (\<lambda>k. k) ''alice'' ''bob'' new_P2PConnector = (None, new_P2PConnector)
   \<and> fst (enterRoom (\<lambda>k. k) ''alice'' ''bob'' demo_world) \<noteq> None"
proof -
  have "onlineStatus new_P2PConnector = Offline" by (simp add: new_P2PConnector_def)
  then show ?thesis
    using enterRoom_offline_returns_null [of new_P2PConnector "\<lambda>k. k" "''alice''" "''bob''"]
    by (simp add: enterRoom_def demo_world_def new_P2PConnector_def Let_def)
qed

section \<open>Approval of the identity by the relay\<close>

lemma out_requestEnterRoom:
  "out (requestEnterRoom r w) =
     out w @ (if state_entered (roomObj w r) = Not_entered
              then [SendSignalingMessage [room_msg (name (roomObj w r))]] else [])"
  by (simp add: requestEnterRoom_def Let_def upd_room_def sendSignalingMessage_def emit_def setTimeout_def)

lemma roomObj_requestEnterRoom:
  "roomObj (requestEnterRoom r w) =
     (roomObj w)(r := (roomObj w r)\<lparr>state_approved := True,
        state_entered := (if state_entered (roomObj w r) = Not_entered then Entering
                          else state_entered (roomObj w r))\<rparr>)"
  by (auto simp add: requestEnterRoom_def Let_def upd_room_def sendSignalingMessage_def emit_def setTimeout_def)

lemma requestEnterRoom_frame:
  "identity (requestEnterRoom r w) = identity w \<and> pendingRooms (requestEnterRoom r w) = pendingRooms w
   \<and> pendingOnlineStatus (requestEnterRoom r w) = pendingOnlineStatus w"
  by (simp add: requestEnterRoom_def Let_def upd_room_def sendSignalingMessage_def emit_def setTimeout_def)

lemma run_pendingRooms_foldl: "run_pendingRooms rs w = foldl (\<lambda>s r. requestEnterRoom r s) w rs"
  by (induction rs arbitrary: w) simp_all

lemma run_pendingRooms_frame:
  "identity (run_pendingRooms rs w) = identity w \<and> pendingOnlineStatus (run_pendingRooms rs w) = pendingOnlineStatus w"
  by (induction rs arbitrary: w) (simp_all add: requestEnterRoom_frame)

lemma out_run_pendingRooms:
  "distinct rs \<Longrightarrow> out (run_pendingRooms rs w) =
     out w @ map (\<lambda>r. SendSignalingMessage [room_msg (name (roomObj w r))])
               (filter (\<lambda>r. state_entered (roomObj w r) = Not_entered) rs)"
proof (induction rs arbitrary: w)
  case Nil then show ?case by simp
next
  case (Cons r rs)
  have *: "\<And>x. x \<in> set rs \<Longrightarrow> roomObj (requestEnterRoom r w) x = roomObj w x"
    using Cons.prems by (auto simp: roomObj_requestEnterRoom)
  have "filter (\<lambda>x. state_entered (roomObj (requestEnterRoom r w) x) = Not_entered) rs
        = filter (\<lambda>x. state_entered (roomObj w x) = Not_entered) rs"
    by (rule filter_cong) (auto simp: *)
  moreover have "map (\<lambda>x. SendSignalingMessage [room_msg (name (roomObj (requestEnterRoom r w) x))])
                   (filter (\<lambda>x. state_entered (roomObj w x) = Not_entered) rs)
               = map (\<lambda>x. SendSignalingMessage [room_msg (name (roomObj w x))])
                   (filter (\<lambda>x. state_entered (roomObj w x) = Not_entered) rs)"
    by (rule map_cong) (auto simp: *)
  ultimately show ?case using Cons by (simp add: out_requestEnterRoom)
qed

lemma requested_stays:
  "state_approved (roomObj w x) \<and> state_entered (roomObj w x) \<noteq> Not_entered \<Longrightarrow>
   state_approved (roomObj (requestEnterRoom r w) x) \<and> state_entered (roomObj (requestEnterRoom r w) x) \<noteq> Not_entered"
  by (auto simp: roomObj_requestEnterRoom)

lemma run_pendingRooms_keeps:
  "state_approved (roomObj w x) \<and> state_entered (roomObj w x) \<noteq> Not_entered \<Longrightarrow>
   state_approved (roomObj (run_pendingRooms rs w) x) \<and> state_entered (roomObj (run_pendingRooms rs w) x) \<noteq> Not_entered"
  by (induction rs arbitrary: w) (simp_all add: requested_stays)

lemma run_pendingRooms_requested:
  "x \<in> set rs \<Longrightarrow>
   state_approved (roomObj (run_pendingRooms rs w) x) \<and> state_entered (roomObj (run_pendingRooms rs w) x) \<noteq> Not_entered"
proof (induction rs arbitrary: w)
  case Nil then show ?case by simp
next
  case (Cons r rs)
  show ?case
  proof (cases "x = r")
    case True
    have "state_approved (roomObj (requestEnterRoom r w) r) \<and> state_entered (roomObj (requestEnterRoom r w) r) \<noteq> Not_entered"
      by (simp add: roomObj_requestEnterRoom)
    then show ?thesis using True run_pendingRooms_keeps by simp
  next
    case False
    then show ?thesis using Cons by simp
  qed
qed

text \<open>
  C7 (as amended). When an \<open>APPROVED_IDENTITY\<close> message arrives while the online status
  is not offline, the identity becomes the pending identity, the queued room entries run
  in the order they were queued (the resulting state is the left fold of the queue, every
  queued room is approved and no longer idle, and for distinct rooms the join requests
  leave in queue order), the queue is then empty, and a pending online status is sent
  after them and cleared.
\<close>

theorem approved_identity_flushes_queue:
  assumes online: "onlineStatus w \<noteq> Offline"
    and ty: "js_get msg ''type'' = JStr ''APPROVED_IDENTITY''"
  shows "(let res = onSignalingMessage E (Some msg) w; w' = snd res;
              flushed = foldl (\<lambda>s r. requestEnterRoom r s) (w\<lparr>identity := pendingIdentity w\<rparr>) (pendingRooms w)
          in fst res = None
             \<and> identity w' = pendingIdentity w \<and> pendingRooms w' = [] \<and> pendingOnlineStatus w' = None
             \<and> w' = (case pendingOnlineStatus w of
                        None \<Rightarrow> flushed\<lparr>pendingRooms := []\<rparr>
                      | Some status \<Rightarrow> sendOnlineStatus status (flushed\<lparr>pendingRooms := []\<rparr>))
                     \<lparr>pendingOnlineStatus := None\<rparr>
             \<and> (\<forall>r \<in> set (pendingRooms w).
                    state_approved (roomObj w' r) \<and> state_entered (roomObj w' r) \<noteq> Not_entered)
             \<and> (distinct (pendingRooms w) \<longrightarrow>
                  out w' = out w
                    @ map (\<lambda>r. SendSignalingMessage [room_msg (name (roomObj w r))])
                        (filter (\<lambda>r. state_entered (roomObj w r) = Not_entered) (pendingRooms w))
                    @ (case pendingOnlineStatus w of None \<Rightarrow> []
                       | Some status \<Rightarrow> [SendSignalingMessage [status_msg status]])))"
proof -
  define w1 where "w1 = w\<lparr>identity := pendingIdentity w\<rparr>"
  define w2 where "w2 = run_pendingRooms (pendingRooms w) w1"
  have nn: "msg \<noteq> JNull" using ty by auto
  have res: "onSignalingMessage E (Some msg) w =
      (None, (case pendingOnlineStatus w of None \<Rightarrow> w2\<lparr>pendingRooms := []\<rparr>
              | Some status \<Rightarrow> sendOnlineStatus status (w2\<lparr>pendingRooms := []\<rparr>))\<lparr>pendingOnlineStatus := None\<rparr>)"
    using online ty nn run_pendingRooms_frame [of "pendingRooms w" w1]
    by (cases "pendingOnlineStatus w")
       (simp_all add: onSignalingMessage_def on_approved_identity_def Let_def w2_def w1_def)
  have fr: "identity w2 = pendingIdentity w" "pendingOnlineStatus w2 = pendingOnlineStatus w"
    using run_pendingRooms_frame [of "pendingRooms w" w1] by (simp_all add: w2_def w1_def)
  have req: "\<forall>r \<in> set (pendingRooms w). state_approved (roomObj w2 r) \<and> state_entered (roomObj w2 r) \<noteq> Not_entered"
    using run_pendingRooms_requested by (simp add: w2_def)
  have outs: "distinct (pendingRooms w) \<Longrightarrow> out w2 = out w
      @ map (\<lambda>r. SendSignalingMessage [room_msg (name (roomObj w r))])
          (filter (\<lambda>r. state_entered (roomObj w r) = Not_entered) (pendingRooms w))"
    using out_run_pendingRooms [of "pendingRooms w" w1] by (simp add: w2_def w1_def)
  show ?thesis
    unfolding Let_def res run_pendingRooms_foldl [symmetric] w1_def [symmetric] w2_def [symmetric]
    using fr req outs
    by (cases "pendingOnlineStatus w")
       (simp_all add: sendOnlineStatus_def sendSignalingMessage_def emit_def)
qed

theorem approved_identity_flushes_queue_witness:
  "(let w = enter 0 False (setOnlineStatus Online (setup_connector (Some ''alice'')
              (new_P2PConnector\<lparr>roomObj := (\<lambda>r. new_Room ''1-2'' [''bob''])\<rparr>)));
        w' = snd (onSignalingMessage demo_env (Some (JObj [(''type'', JStr ''APPROVED_IDENTITY'')])) w)
    in pendingRooms w = [0] \<and> identity w' = Some ''alice'' \<and> pendingRooms w' = []
       \<and> pendingOnlineStatus w' = None
       \<and> out w' = out w @ [SendSignalingMessage [room_msg ''1-2''],
                              SendSignalingMessage [status_msg Online]])"
proof -
  define w where "w = enter 0 False (setOnlineStatus Online (setup_connector (Some ''alice'')
              (new_P2PConnector\<lparr>roomObj := (\<lambda>r. new_Room ''1-2'' [''bob''])\<rparr>)))"
  have facts: "onlineStatus w = Online" "pendingRooms w = [0]" "pendingIdentity w = Some ''alice''"
    "pendingOnlineStatus w = Some Online" "roomObj w 0 = new_Room ''1-2'' [''bob'']"
    by (simp_all add: w_def enter_def setOnlineStatus_def setup_connector_def new_P2PConnector_def
        truthy_str_def sendSignalingMessage_def emit_def Let_def new_Room_def)
  have h1: "onlineStatus w \<noteq> Offline" using facts by simp
  have h2: "js_get (JObj [(''type'', JStr ''APPROVED_IDENTITY'')]) ''type'' = JStr ''APPROVED_IDENTITY''"
    by simp
  define w' where "w' = snd (onSignalingMessage demo_env (Some (JObj [(''type'', JStr ''APPROVED_IDENTITY'')])) w)"
  note T = approved_identity_flushes_queue [OF h1 h2, of demo_env, unfolded Let_def, folded w'_def]
  have a: "identity w' = pendingIdentity w" "pendingRooms w' = []" "pendingOnlineStatus w' = None"
    using T by blast+
  have "distinct (pendingRooms w) \<longrightarrow>
          out w' = out w
            @ map (\<lambda>r. SendSignalingMessage [room_msg (name (roomObj w r))])
                (filter (\<lambda>r. state_entered (roomObj w r) = Not_entered) (pendingRooms w))
            @ (case pendingOnlineStatus w of None \<Rightarrow> []
               | Some status \<Rightarrow> [SendSignalingMessage [status_msg status]])"
    using T by blast
  then have b: "out w' = out w @ [SendSignalingMessage [room_msg ''1-2''],
                              SendSignalingMessage [status_msg Online]]"
    by (simp add: facts new_Room_def)
  show ?thesis
    unfolding Let_def w_def [symmetric] w'_def [symmetric] using a b facts by simp
qed

text \<open>
  C7 as stated fails while the connector is offline, as it is from its construction: a
  room entered then is queued, and the \<open>APPROVED_IDENTITY\<close> message is dropped, so the
  identity stays unset and the queue stays as it was.
\<close>

theorem approved_identity_offline_counterexample:
  "(let w = enter 0 False (setup_connector (Some ''alice'') new_P2PConnector);
        w' = snd (onSignalingMessage demo_env (Some (JObj [(''type'', JStr ''APPROVED_IDENTITY'')])) w)
    in pendingIdentity w = Some ''alice'' \<and> pendingRooms w = [0]
       \<and> identity w' = None \<and> pendingRooms w' = [0] \<and> w' = w)"
  by (simp add: Let_def onSignalingMessage_def enter_def setup_connector_def new_P2PConnector_def
      truthy_str_def sendSignalingMessage_def emit_def new_Room_def)

section \<open>Proof of identity between peers\<close>












section \<open>Requests that time out\<close>

lemma request_sends:
  "fst (request (sendSignalingMessage m) h w) = fresh w
   \<and> timers (snd (request (sendSignalingMessage m) h w)) = timers w @ [(now w + 3000, PromiseTimeout (fresh w))]
   \<and> signalingMessageAwaitings (snd (request (sendSignalingMessage m) h w))
        = signalingMessageAwaitings w @ [\<lparr>mid = fresh w, handleResponse = h\<rparr>]
   \<and> promises (snd (request (sendSignalingMessage m) h w)) (fresh w) = Pending
   \<and> now (snd (request (sendSignalingMessage m) h w)) = now w
   \<and> out (snd (request (sendSignalingMessage m) h w)) = out w @ [SendSignalingMessage m]"
  by (simp add: request_def Let_def promiseTimeout_def setTimeout_def sendSignalingMessage_def emit_def)

lemma run_until_single_timeout:
  assumes "timers w = [(d, PromiseTimeout q)]" and "promises w q = Pending"
  shows "t < d \<Longrightarrow> promises (run_until t w) q = Pending"
    and "d \<le> t \<Longrightarrow> promises (run_until t w) q = Rejected ''promise timeout''
          \<and> signalingMessageAwaitings (run_until t w) = signalingMessageAwaitings w
          \<and> timers (run_until t w) = []"
proof -
  have e: "earliest (timers w) = Some (d, PromiseTimeout q)" using assms by simp
  show "promises (run_until t w) q = Pending" if "t < d"
    using run_until_late [OF e, of t] that assms by simp
  show "promises (run_until t w) q = Rejected ''promise timeout''
          \<and> signalingMessageAwaitings (run_until t w) = signalingMessageAwaitings w
          \<and> timers (run_until t w) = []" if "d \<le> t"
  proof -
    define w1 where "w1 = run_timer (d, PromiseTimeout q) w"
    have w1: "timers w1 = []" "promises w1 q = Rejected ''promise timeout''"
      "signalingMessageAwaitings w1 = signalingMessageAwaitings w"
      using assms by (simp_all add: w1_def run_timer_def Let_def reject_def)
    have "run_until t w = run_until t w1" using run_until_due [OF e, of t] that by (simp add: w1_def)
    also have "\<dots> = w1\<lparr>now := max (now w1) t\<rparr>" using w1 by (intro run_until_None) simp
    finally show ?thesis using w1 by simp
  qed
qed

lemma timed_out_request_step:
  assumes "timers w = []"
  shows "timers (run_until (now w + 3000) (snd (request (sendSignalingMessage m) h w))) = []
       \<and> length (signalingMessageAwaitings (run_until (now w + 3000) (snd (request (sendSignalingMessage m) h w))))
           = Suc (length (signalingMessageAwaitings w))"
proof -
  define w1 where "w1 = snd (request (sendSignalingMessage m) h w)"
  have tm: "timers w1 = [(now w + 3000, PromiseTimeout (fresh w))]" "promises w1 (fresh w) = Pending"
    using request_sends [of m h w] assms by (simp_all add: w1_def)
  show ?thesis
    using run_until_single_timeout(2) [OF tm, of "now w + 3000"] request_sends [of m h w]
    by (simp add: w1_def [symmetric])
qed

lemma timed_out_requests_grow:
  "timers w = [] \<Longrightarrow>
   length (signalingMessageAwaitings (timed_out_requests n m h w)) = length (signalingMessageAwaitings w) + n"
proof (induction n arbitrary: w)
  case 0 then show ?case by simp
next
  case (Suc n)
  show ?case using Suc.IH [of "run_until (now w + 3000) (snd (request (sendSignalingMessage m) h w))"]
      timed_out_request_step [OF Suc.prems, of m h] by simp
qed

text \<open>
  C5. A request that no message answers: the returned promise is pending at every time
  before 3000 ms and rejected at 3000 ms, as claimed; but the matcher is still in the
  list of pending matchers after the timeout, and \<open>n\<close> requests that time out one after
  the other leave the list \<open>n\<close> matchers longer.
\<close>

theorem request_timeout_keeps_matcher:
  assumes "timers w = []"
  shows "(let res = request (sendSignalingMessage m) h w; q = fst res; w1 = snd res;
              w2 = run_until (now w + 3000) w1
          in (\<forall>t. t < now w + 3000 \<longrightarrow> promises (run_until t w1) q = Pending)
             \<and> promises w2 q = Rejected ''promise timeout''
             \<and> signalingMessageAwaitings w2 = signalingMessageAwaitings w @ [\<lparr>mid = q, handleResponse = h\<rparr>])
         \<and> length (signalingMessageAwaitings (timed_out_requests n m h w))
             = length (signalingMessageAwaitings w) + n"
proof -
  define w1 where "w1 = snd (request (sendSignalingMessage m) h w)"
  have q: "fst (request (sendSignalingMessage m) h w) = fresh w" using request_sends by simp
  have tm: "timers w1 = [(now w + 3000, PromiseTimeout (fresh w))]" "promises w1 (fresh w) = Pending"
    using request_sends [of m h w] assms by (simp_all add: w1_def)
  have aw: "signalingMessageAwaitings w1 = signalingMessageAwaitings w @ [\<lparr>mid = fresh w, handleResponse = h\<rparr>]"
    using request_sends [of m h w] by (simp add: w1_def)
  show ?thesis
    unfolding Let_def q w1_def [symmetric]
    using run_until_single_timeout [OF tm] aw timed_out_requests_grow [OF assms] by simp
qed

theorem request_timeout_keeps_matcher_witness:
  "(let w1 = snd (getTmp demo_world); w2 = run_until 3000 w1
    in promises (run_until 2999 w1) 0 = Pending
       \<and> promises w2 0 = Rejected ''promise timeout''
       \<and> signalingMessageAwaitings w2 = [\<lparr>mid = 0, handleResponse = who_online_response\<rparr>])
   \<and> length (signalingMessageAwaitings
        (timed_out_requests 100 [JObj [(''type'', JStr ''WHO_ONLINE'')]] who_online_response demo_world)) = 100"
proof -
  have h: "timers demo_world = []" by (simp add: demo_world_def new_P2PConnector_def)
  have f: "fresh demo_world = 0" "now demo_world = 0" "signalingMessageAwaitings demo_world = []"
    by (simp_all add: demo_world_def new_P2PConnector_def)
  have q: "fst (request (sendSignalingMessage [JObj [(''type'', JStr ''WHO_ONLINE'')]]) who_online_response demo_world) = 0"
    using request_sends [of _ _ demo_world] f by simp
  note T = request_timeout_keeps_matcher [OF h, of "[JObj [(''type'', JStr ''WHO_ONLINE'')]]" who_online_response 100,
      unfolded Let_def q f, folded getTmp_def]
  have "(2999::nat) < 0 + 3000" by simp
  then have "promises (run_until 2999 (snd (getTmp demo_world))) 0 = Pending" using T by blast
  then show ?thesis unfolding Let_def using T by simp
qed

section \<open>Dispatch to the pending matchers\<close>

















section \<open>The reconnection heuristic\<close>

lemma same_peers_peer_of: "same_peers w0 s \<Longrightarrow> peer_of s rn pid = peer_of w0 rn pid"
  by (simp add: same_peers_def peer_of_def rooms_get_def getPeer_def split: jsval.splits option.splits)

lemma rooms_get_rooms: "rooms w' = rooms w \<Longrightarrow> rooms_get w' k = rooms_get w k"
  by (cases k; simp add: rooms_get_def)

lemma upd_peer_simps:
  "rooms (upd_peer p f w) = rooms w" "roomObj (upd_peer p f w) = roomObj w"
  "timers (upd_peer p f w) = timers w" "out (upd_peer p f w) = out w"
  "fresh (upd_peer p f w) = fresh w" "rtcSupported (upd_peer p f w) = rtcSupported w"
  "peerObj (upd_peer p f w) = (peerObj w)(p := f (peerObj w p))"
  by (simp_all add: upd_peer_def)

lemma rooms_get_upd_peer: "rooms_get (upd_peer p f w) k = rooms_get w k"
  by (rule rooms_get_rooms) (simp add: upd_peer_def)

lemma emit_simps:
  "rooms (emit e w) = rooms w" "roomObj (emit e w) = roomObj w"
  "timers (emit e w) = timers w" "out (emit e w) = out w @ [e]"
  "fresh (emit e w) = fresh w" "rtcSupported (emit e w) = rtcSupported w"
  "peerObj (emit e w) = peerObj w"
  by (simp_all add: emit_def)

lemma rooms_get_emit: "rooms_get (emit e w) k = rooms_get w k"
  by (rule rooms_get_rooms) (simp add: emit_def)

lemma askPeerConnection_found:
  assumes "rooms_get s rn = Some r" and "getPeer (roomObj s r) pid = Some p"
  shows "fst (askPeerConnection rn pid s) = Inr (if rtcSupported s then Some (fresh s) else None)"
    and "rooms (snd (askPeerConnection rn pid s)) = rooms s"
    and "roomObj (snd (askPeerConnection rn pid s)) = roomObj s"
    and "timers (snd (askPeerConnection rn pid s)) = timers s"
    and "connectionRole (peerObj (snd (askPeerConnection rn pid s)) q) = connectionRole (peerObj s q)"
    and "noNeedReconnect (peerObj (snd (askPeerConnection rn pid s)) q) = noNeedReconnect (peerObj s q)"
    and "filter (is_offer_to w0 q') (out (snd (askPeerConnection rn pid s))) = filter (is_offer_to w0 q') (out s)"
proof -
  define w1 where "w1 = (case peerConnection (peerObj s p) of
                            None \<Rightarrow> s
                          | Some pc \<Rightarrow>
                              if iceConnectionState s pc \<noteq> ''connected''
                              then emit (PcClose pc)
                                     (s\<lparr>iceConnectionState := (iceConnectionState s)(pc := ''closed'')\<rparr>)
                              else s)"
  have w1: "rooms w1 = rooms s" "roomObj w1 = roomObj s" "timers w1 = timers s" "peerObj w1 = peerObj s"
    "fresh w1 = fresh s" "rtcSupported w1 = rtcSupported s"
    "filter (is_offer_to w0 q') (out w1) = filter (is_offer_to w0 q') (out s)"
    by (simp_all add: w1_def emit_def split: option.splits)
  have eq: "askPeerConnection rn pid s =
      (if rtcSupported w1
       then (Inr (Some (fresh w1)),
             upd_peer p (\<lambda>x. x\<lparr>peerConnection := Some (fresh w1)\<rparr>)
               (w1\<lparr>fresh := Suc (fresh w1),
                    iceConnectionState := (iceConnectionState w1)(fresh w1 := ''new'')\<rparr>))
       else (Inr None, w1))"
    unfolding askPeerConnection_def assms option.case Let_def w1_def [symmetric] ..
  show "fst (askPeerConnection rn pid s) = Inr (if rtcSupported s then Some (fresh s) else None)"
    "rooms (snd (askPeerConnection rn pid s)) = rooms s"
    "roomObj (snd (askPeerConnection rn pid s)) = roomObj s"
    "timers (snd (askPeerConnection rn pid s)) = timers s"
    "connectionRole (peerObj (snd (askPeerConnection rn pid s)) q) = connectionRole (peerObj s q)"
    "noNeedReconnect (peerObj (snd (askPeerConnection rn pid s)) q) = noNeedReconnect (peerObj s q)"
    "filter (is_offer_to w0 q') (out (snd (askPeerConnection rn pid s))) = filter (is_offer_to w0 q') (out s)"
    unfolding eq using w1 by (simp_all add: upd_peer_def)
qed

lemma doOffer_found:
  assumes "rooms_get s rn = Some r" and "getPeer (roomObj s r) pid = Some p"
  shows "fst (doOffer rn pid pco s) = (case pco of None \<Rightarrow> Some TypeError | Some pc \<Rightarrow> None)"
    and "rooms (snd (doOffer rn pid pco s)) = rooms s"
    and "roomObj (snd (doOffer rn pid pco s)) = roomObj s"
    and "timers (snd (doOffer rn pid pco s)) = timers s"
    and "connectionRole (peerObj (snd (doOffer rn pid pco s)) q)
           = (if q = p then Some Offer else connectionRole (peerObj s q))"
    and "noNeedReconnect (peerObj (snd (doOffer rn pid pco s)) q) = noNeedReconnect (peerObj s q)"
    and "out (snd (doOffer rn pid pco s))
           = out s @ (case pco of None \<Rightarrow> [] | Some pc \<Rightarrow> [PcCreateOffer pc rn pid])"
proof -
  have ch: "rooms_get (s'\<lparr>fresh := n, chanObj := c\<rparr>) rn = rooms_get s' rn" for s' :: world and n c
    by (rule rooms_get_rooms) simp
  show "fst (doOffer rn pid pco s) = (case pco of None \<Rightarrow> Some TypeError | Some pc \<Rightarrow> None)"
    "rooms (snd (doOffer rn pid pco s)) = rooms s"
    "roomObj (snd (doOffer rn pid pco s)) = roomObj s"
    "timers (snd (doOffer rn pid pco s)) = timers s"
    "connectionRole (peerObj (snd (doOffer rn pid pco s)) q)
           = (if q = p then Some Offer else connectionRole (peerObj s q))"
    "noNeedReconnect (peerObj (snd (doOffer rn pid pco s)) q) = noNeedReconnect (peerObj s q)"
    "out (snd (doOffer rn pid pco s))
           = out s @ (case pco of None \<Rightarrow> [] | Some pc \<Rightarrow> [PcCreateOffer pc rn pid])"
    using assms
    by (cases pco; simp add: doOffer_def createDataChannel_def initDataChannel_def Let_def
        upd_peer_simps emit_simps rooms_get_upd_peer rooms_get_emit ch)+
qed

lemma is_offer_to_same: "same_peers w0 s \<Longrightarrow> is_offer_to s q e = is_offer_to w0 q e"
  by (cases e) (simp_all add: same_peers_peer_of)

lemma fire_Reconnect_facts:
  assumes found: "peer_of s rn pid = Some p"
  shows "rooms (snd (fire (Reconnect p rn pid) s)) = rooms s
    \<and> roomObj (snd (fire (Reconnect p rn pid) s)) = roomObj s
    \<and> timers (snd (fire (Reconnect p rn pid) s)) = timers s
    \<and> connectionRole (peerObj (snd (fire (Reconnect p rn pid) s)) q)
           = (if q = p \<and> \<not> isConnected (peerObj s p) \<and> connectionRole (peerObj s p) = Some Answer
              then Some Offer else connectionRole (peerObj s q))
    \<and> noNeedReconnect (peerObj (snd (fire (Reconnect p rn pid) s)) p)
           = ((\<not> isConnected (peerObj s p) \<and> connectionRole (peerObj s p) = Some Answer)
              \<or> noNeedReconnect (peerObj s p))
    \<and> filter (is_offer_to w0 q') (out (snd (fire (Reconnect p rn pid) s)))
           = filter (is_offer_to w0 q') (out s)
             @ (if \<not> isConnected (peerObj s p) \<and> connectionRole (peerObj s p) = Some Answer
                   \<and> rtcSupported s \<and> peer_of w0 rn pid = Some q'
                then [PcCreateOffer (fresh s) rn pid] else [])
    \<and> fst (fire (Reconnect p rn pid) s)
           = (if \<not> isConnected (peerObj s p) \<and> connectionRole (peerObj s p) = Some Answer
                 \<and> \<not> rtcSupported s then Some TypeError else None)"
proof -
  obtain r where r: "rooms_get s rn = Some r" "getPeer (roomObj s r) pid = Some p"
    using found by (auto simp: peer_of_def split: option.splits)
  define s2 where "s2 = upd_peer p (\<lambda>x. x\<lparr>noNeedReconnect := True\<rparr>) s"
  define s3 where "s3 = snd (askPeerConnection rn pid s2)"
  define pco where "pco = (if rtcSupported s then Some (fresh s) else None)"
  have r2: "rooms_get s2 rn = Some r" "getPeer (roomObj s2 r) pid = Some p"
    using r by (simp_all add: s2_def rooms_get_upd_peer upd_peer_simps)
  note A = askPeerConnection_found [OF r2, folded s3_def]
  have r3: "rooms_get s3 rn = Some r" "getPeer (roomObj s3 r) pid = Some p"
    using r2 A(2,3) rooms_get_rooms [of s3 s2 rn] by simp_all
  note D = doOffer_found [OF r3]
  have ask: "askPeerConnection rn pid s2 = (Inr pco, s3)"
    using A(1) by (simp add: s3_def pco_def s2_def upd_peer_simps prod_eq_iff)
  have s2: "rooms s2 = rooms s" "roomObj s2 = roomObj s" "timers s2 = timers s" "out s2 = out s"
    "connectionRole (peerObj s2 q) = connectionRole (peerObj s q)"
    "noNeedReconnect (peerObj s2 p)"
    by (simp_all add: s2_def upd_peer_simps)
  show ?thesis
  proof (cases "\<not> isConnected (peerObj s p) \<and> connectionRole (peerObj s p) = Some Answer")
    case False
    then have f: "fire (Reconnect p rn pid) s = (None, s)" by auto
    show ?thesis unfolding f using False by auto
  next
    case True
    then have f: "fire (Reconnect p rn pid) s = doOffer rn pid pco s3"
      by (simp add: s2_def [symmetric] ask)
    have o: "filter (is_offer_to w0 q') (out (snd (doOffer rn pid pco s3)))
         = filter (is_offer_to w0 q') (out s)
           @ (if rtcSupported s \<and> peer_of w0 rn pid = Some q' then [PcCreateOffer (fresh s) rn pid] else [])"
      using D(7) [of pco] A(7) [of w0 q'] s2(4) by (simp add: pco_def)
    have e: "fst (doOffer rn pid pco s3) = (if \<not> rtcSupported s then Some TypeError else None)"
      using D(1) [of pco] by (simp add: pco_def)
    have c: "connectionRole (peerObj (snd (doOffer rn pid pco s3)) q)
               = (if q = p then Some Offer else connectionRole (peerObj s q))"
      using D(5) [of pco q] A(5) [of q] s2(5) by simp
    have n: "noNeedReconnect (peerObj (snd (doOffer rn pid pco s3)) p)"
      using D(6) [of pco p] A(6) [of p] s2(6) by simp
    show ?thesis unfolding f using True D(2,3,4) [of pco] A(2,3,4) s2(1,2,3) o e c n by simp
  qed
qed

lemma fire_reconnect_inv:
  assumes sp: "same_peers w0 s" and ok: "timer_ok w0 f"
  shows "same_peers w0 (snd (fire f s)) \<and> timers (snd (fire f s)) = timers s
       \<and> (connectionRole (peerObj (snd (fire f s)) p) = connectionRole (peerObj s p)
            \<or> connectionRole (peerObj (snd (fire f s)) p) = Some Offer)
       \<and> (offers_to w0 p (snd (fire f s)) = offers_to w0 p s
            \<or> (offers_to w0 p (snd (fire f s)) = Suc (offers_to w0 p s)
                \<and> connectionRole (peerObj s p) = Some Answer
                \<and> connectionRole (peerObj (snd (fire f s)) p) = Some Offer))"
proof (cases f)
  case (RevertEntering r)
  then show ?thesis using sp by (simp add: same_peers_def upd_room_def offers_to_def)
next
  case (PromiseTimeout q)
  then show ?thesis using sp by (simp add: same_peers_def reject_def offers_to_def)
next
  case (Reconnect p' rn pid)
  have found: "peer_of s rn pid = Some p'" using ok Reconnect sp by (simp add: same_peers_peer_of)
  note F = fire_Reconnect_facts [OF found, of p w0 p]
  have w0: "peer_of w0 rn pid = Some p'" using ok Reconnect by simp
  show ?thesis
    unfolding Reconnect using F sp w0
    by (auto simp: same_peers_def offers_to_def simp del: fire.simps)
qed

lemma run_timer_reconnect_inv:
  assumes "reconnect_inv w0 p n s" and "x \<in> set (timers s)"
  shows "reconnect_inv w0 p n (run_timer x s)"
proof -
  define s1 where "s1 = s\<lparr>timers := remove1 x (timers s), now := max (now s) (fst x)\<rparr>"
  define s2 where "s2 = snd (fire (snd x) s1)"
  have sp1: "same_peers w0 s1" using assms(1) by (simp add: reconnect_inv_def same_peers_def s1_def)
  have ok: "timer_ok w0 (snd x)" using assms by (auto simp: reconnect_inv_def list_all_iff)
  note F = fire_reconnect_inv [OF sp1 ok, of p, folded s2_def]
  have s1: "offers_to w0 p s1 = offers_to w0 p s" "peerObj s1 = peerObj s"
    by (simp_all add: s1_def offers_to_def)
  have tm: "list_all (\<lambda>x. timer_ok w0 (snd x)) (timers s2)"
    using F assms(1) by (auto simp: reconnect_inv_def s1_def list_all_iff dest: notin_set_remove1)
  have J2: "reconnect_inv w0 p n s2"
    using F tm assms(1) s1 by (auto simp: reconnect_inv_def)
  have "run_timer x s = s2 \<or> run_timer x s = emit Uncaught s2"
    by (simp add: run_timer_def Let_def s1_def [symmetric] s2_def split: option.splits)
  moreover have "reconnect_inv w0 p n (emit Uncaught s2)"
    using J2 by (simp add: reconnect_inv_def same_peers_def emit_def offers_to_def)
  ultimately show ?thesis using J2 by auto
qed

lemma candidate_dispatch:
  assumes "onlineStatus w \<noteq> Offline" and "js_get msg ''type'' = JStr ''candidate''"
  shows "onSignalingMessage E (Some msg) w = on_candidate (js_get msg ''room'') msg w"
proof -
  have "msg \<noteq> JNull" using assms(2) by auto
  then show ?thesis using assms by (simp add: onSignalingMessage_def Let_def)
qed

lemma on_candidate_reconnect_inv:
  assumes "reconnect_inv w0 p n s"
  shows "reconnect_inv w0 p n (snd (on_candidate rn msg s))"
proof -
  have po: "peer_of w0 rn pid = Some q" if "rooms_get s rn = Some r" "getPeer (roomObj s r) pid = Some q" for r pid q
    using that assms same_peers_peer_of [of w0 s rn pid] by (simp add: reconnect_inv_def peer_of_def)
  show ?thesis
    using assms po
    by (auto simp: on_candidate_def reconnect_inv_def same_peers_def emit_def setTimeout_def
        offers_to_def Let_def split: option.splits)
qed

lemma step_reconnect_inv:
  assumes "reconnect_inv w0 p n s" and "candidate_event ev"
  shows "reconnect_inv w0 p n (step E ev s)"
proof (cases ev)
  case (Signal frame)
  show ?thesis
  proof (cases "onlineStatus s = Offline \<or> frame = None")
    case True
    then have "step E ev s = s" using Signal by (auto simp: onSignalingMessage_def)
    then show ?thesis using assms by simp
  next
    case False
    then obtain msg where msg: "frame = Some msg" "js_get msg ''type'' = JStr ''candidate''"
      using assms(2) Signal by (cases frame) auto
    have "step E ev s = snd (on_candidate (js_get msg ''room'') msg s)"
      using Signal msg False candidate_dispatch [of s msg E] by simp
    then show ?thesis using on_candidate_reconnect_inv [OF assms(1)] by simp
  qed
next
  case (Tick ms)
  have "reconnect_inv w0 p n (run_until (now s + ms) s)"
  proof (rule run_until_inv [where P = "reconnect_inv w0 p n"])
    show "reconnect_inv w0 p n s" by (rule assms(1))
  next
    fix x w assume "reconnect_inv w0 p n w" "x \<in> set (timers w)"
    then show "reconnect_inv w0 p n (run_timer x w)" by (rule run_timer_reconnect_inv)
  next
    fix w k assume "reconnect_inv w0 p n w"
    then show "reconnect_inv w0 p n (w\<lparr>now := k\<rparr>)"
      by (simp add: reconnect_inv_def same_peers_def offers_to_def)
  qed
  then show ?thesis using Tick by simp
next
  case (Connected q b)
  then show ?thesis using assms(1)
    by (auto simp: reconnect_inv_def same_peers_def offers_to_def upd_peer_def)
qed

lemma run_reconnect_inv:
  "reconnect_inv w0 p n s \<Longrightarrow> list_all candidate_event evs \<Longrightarrow> reconnect_inv w0 p n (run E evs s)"
  by (induction evs arbitrary: s) (simp_all add: step_reconnect_inv)

lemma reconnect_at_most_once:
  assumes "timers_ok w" and "list_all candidate_event evs"
  shows "offers_to w p (run E evs w) \<le> Suc (offers_to w p w)"
proof -
  have "reconnect_inv w p (offers_to w p w) w"
    using assms(1) by (simp add: reconnect_inv_def same_peers_def timers_ok_def)
  then have "reconnect_inv w p (offers_to w p w) (run E evs w)"
    using assms(2) by (rule run_reconnect_inv)
  then show ?thesis by (auto simp: reconnect_inv_def)
qed

lemma reconnect_after_2500:
  assumes online: "onlineStatus w \<noteq> Offline" and ty: "js_get msg ''type'' = JStr ''candidate''"
    and found: "peer_of w (js_get msg ''room'') (js_get msg ''fromPeer'') = Some p"
    and pc: "peerConnection (peerObj w p) \<noteq> None"
    and flag: "\<not> noNeedReconnect (peerObj w p)"
    and nc: "\<not> isConnected (peerObj w p)" and role: "connectionRole (peerObj w p) = Some Answer"
    and tm: "timers w = []" and rtc: "rtcSupported w"
  shows "(let w1 = step E (Signal (Some msg)) w; w2 = step E (Tick 2500) w1
          in (\<forall>t < 2500. offers_to w p (step E (Tick t) w1) = offers_to w p w)
             \<and> filter (is_offer_to w p) (out w2)
                 = filter (is_offer_to w p) (out w)
                   @ [PcCreateOffer (fresh w) (js_get msg ''room'') (js_get msg ''fromPeer'')]
             \<and> connectionRole (peerObj w2 p) = Some Offer \<and> noNeedReconnect (peerObj w2 p))"
proof -
  define rn where "rn = js_get msg ''room''"
  define pid where "pid = js_get msg ''fromPeer''"
  define x where "x = (now w + 2500, Reconnect p rn pid)"
  obtain r where r: "rooms_get w rn = Some r" "getPeer (roomObj w r) pid = Some p"
    using found by (auto simp: peer_of_def rn_def pid_def split: option.splits)
  obtain c where c: "peerConnection (peerObj w p) = Some c" using pc by auto
  define w1 where "w1 = setTimeout (Reconnect p rn pid) 2500
                          (emit (PcAddIceCandidate c (js_get msg ''label'') (js_get msg ''candidate'')) w)"
  have s1: "step E (Signal (Some msg)) w = w1"
    using candidate_dispatch [OF online ty, of E] r c flag
    by (simp add: on_candidate_def rn_def [symmetric] pid_def [symmetric] Let_def w1_def emit_def)
  have w1: "timers w1 = [x]" "now w1 = now w" "rooms w1 = rooms w" "roomObj w1 = roomObj w"
    "peerObj w1 = peerObj w" "rtcSupported w1 = rtcSupported w" "fresh w1 = fresh w"
    "filter (is_offer_to w p) (out w1) = filter (is_offer_to w p) (out w)"
    using tm by (simp_all add: w1_def setTimeout_def emit_def x_def)
  have e: "earliest (timers w1) = Some x" using w1 by simp
  have early: "offers_to w p (step E (Tick t) w1) = offers_to w p w" if "t < 2500" for t
  proof -
    have "run_until (now w1 + t) w1 = w1\<lparr>now := max (now w1) (now w1 + t)\<rparr>"
      using that w1 by (intro run_until_late [OF e]) (simp add: x_def)
    then show ?thesis using w1(8) by (simp add: offers_to_def)
  qed
  define s1 where "s1 = w1\<lparr>timers := remove1 x (timers w1), now := max (now w1) (fst x)\<rparr>"
  have sp: "same_peers w s1" by (simp add: same_peers_def s1_def w1)
  have found1: "peer_of s1 rn pid = Some p"
    using found same_peers_peer_of [OF sp] by (simp add: rn_def pid_def)
  note F = fire_Reconnect_facts [OF found1, of p w p]
  have s1f: "isConnected (peerObj s1 p) = isConnected (peerObj w p)"
    "connectionRole (peerObj s1 p) = connectionRole (peerObj w p)"
    "rtcSupported s1 = rtcSupported w" "fresh s1 = fresh w" "out s1 = out w1"
    by (simp_all add: s1_def w1)
  have nofail: "fst (fire (Reconnect p rn pid) s1) = None"
    using F rtc s1f by (simp del: fire.simps)
  have "run_timer x w1 = (case fst (fire (snd x) s1) of None \<Rightarrow> snd (fire (snd x) s1)
                          | Some e \<Rightarrow> emit Uncaught (snd (fire (snd x) s1)))"
    unfolding run_timer_def Let_def s1_def ..
  also have "snd x = Reconnect p rn pid" by (simp add: x_def)
  finally have rt: "run_timer x w1 = snd (fire (Reconnect p rn pid) s1)"
    using nofail by (simp del: fire.simps)
  define w2 where "w2 = run_timer x w1"
  have tm2: "timers w2 = []" by (simp add: w2_def timers_run_timer w1)
  have "run_until (now w1 + 2500) w1 = run_until (now w1 + 2500) w2"
    unfolding w2_def using w1 by (intro run_until_due [OF e]) (simp add: x_def)
  also have "\<dots> = w2\<lparr>now := max (now w2) (now w1 + 2500)\<rparr>"
    using tm2 by (intro run_until_None) simp
  finally have s2: "step E (Tick 2500) w1 = w2\<lparr>now := max (now w2) (now w1 + 2500)\<rparr>" by simp
  have facts: "filter (is_offer_to w p) (out w2)
                 = filter (is_offer_to w p) (out w) @ [PcCreateOffer (fresh w) rn pid]"
    "connectionRole (peerObj w2 p) = Some Offer" "noNeedReconnect (peerObj w2 p)"
    unfolding w2_def rt using F nc role rtc found s1f w1(8)
    by (simp_all add: rn_def pid_def del: fire.simps)
  show ?thesis
    unfolding Let_def s1 s2 using early facts by (simp add: rn_def pid_def)
qed

lemma candidate_with_flag:
  assumes "js_get msg ''type'' = JStr ''candidate''"
    and "peer_of w (js_get msg ''room'') (js_get msg ''fromPeer'') = Some p"
    and "noNeedReconnect (peerObj w p)"
  shows "timers (step E (Signal (Some msg)) w) = timers w"
proof (cases "onlineStatus w = Offline")
  case True
  then show ?thesis by (simp add: onSignalingMessage_def)
next
  case False
  obtain r where r: "rooms_get w (js_get msg ''room'') = Some r"
    "getPeer (roomObj w r) (js_get msg ''fromPeer'') = Some p"
    using assms(2) by (auto simp: peer_of_def split: option.splits)
  show ?thesis
    using candidate_dispatch [OF False assms(1), of E] r assms(3)
    by (simp add: on_candidate_def Let_def emit_def split: option.splits)
qed

text \<open>
  C8. Along any sequence of candidate messages (for any rooms and peers), clock advances
  and changes of the peers' connected flags, starting with consistent reconnection
  timers (none, for instance), at most one more offer is created for any one peer. And
  the heuristic does fire: 2500 ms after a candidate for a peer that is an answerer, is
  not connected and has not been re-offered, and not before, the connector creates an
  offer for that peer on a new connection, makes it an offerer and sets its one-shot
  flag; a candidate for a peer whose flag is set arms no timer.
\<close>

theorem reconnect_fires_at_most_once:
  "(timers_ok w \<and> list_all candidate_event evs \<longrightarrow>
      offers_to w p (run E evs w) \<le> Suc (offers_to w p w))
   \<and> (onlineStatus w \<noteq> Offline \<and> js_get msg ''type'' = JStr ''candidate''
       \<and> peer_of w (js_get msg ''room'') (js_get msg ''fromPeer'') = Some p
       \<and> peerConnection (peerObj w p) \<noteq> None \<and> \<not> noNeedReconnect (peerObj w p)
       \<and> \<not> isConnected (peerObj w p) \<and> connectionRole (peerObj w p) = Some Answer
       \<and> timers w = [] \<and> rtcSupported w \<longrightarrow>
       (let w1 = step E (Signal (Some msg)) w; w2 = step E (Tick 2500) w1
        in (\<forall>t < 2500. offers_to w p (step E (Tick t) w1) = offers_to w p w)
           \<and> filter (is_offer_to w p) (out w2)
               = filter (is_offer_to w p) (out w)
                 @ [PcCreateOffer (fresh w) (js_get msg ''room'') (js_get msg ''fromPeer'')]
           \<and> connectionRole (peerObj w2 p) = Some Offer \<and> noNeedReconnect (peerObj w2 p)))
   \<and> (js_get msg ''type'' = JStr ''candidate''
       \<and> peer_of w (js_get msg ''room'') (js_get msg ''fromPeer'') = Some p
       \<and> noNeedReconnect (peerObj w p) \<longrightarrow>
       timers (step E (Signal (Some msg)) w) = timers w)"
  using reconnect_at_most_once [of w evs p E] reconnect_after_2500 [of w msg p E]
    candidate_with_flag [of msg w p E] by blast

lemma demo_answerer_world_facts:
  "timers demo_answerer_world = []" "onlineStatus demo_answerer_world = Online"
  "peer_of demo_answerer_world (JStr ''1-2'') (JStr ''bob'') = Some 0"
  "peerObj demo_answerer_world 0 = blank_peer\<lparr>peerConnection := Some 0, connectionRole := Some Answer\<rparr>"
  "rtcSupported demo_answerer_world" "fresh demo_answerer_world = 1"
  "out demo_answerer_world = [PcCreateAnswer 0]"
  by (simp_all add: demo_answerer_world_def doAnswer_def askPeerConnection_def rooms_get_def getPeer_def
      peer_of_def demo_world_def new_P2PConnector_def new_Room_def blank_peer_def upd_peer_def emit_def Let_def)

theorem reconnect_fires_at_most_once_witness:
  "offers_to demo_answerer_world 0
     (run demo_env [Signal (Some candidate_msg), Signal (Some candidate_msg), Tick 1000,
                    Signal (Some candidate_msg), Tick 2500, Tick 2500,
                    Signal (Some candidate_msg), Tick 5000] demo_answerer_world) \<le> 1
   \<and> filter (is_offer_to demo_answerer_world 0)
        (out (step demo_env (Tick 2500) (step demo_env (Signal (Some candidate_msg)) demo_answerer_world)))
      = [PcCreateOffer 1 (JStr ''1-2'') (JStr ''bob'')]"
proof -
  define evs where "evs = [Signal (Some candidate_msg), Signal (Some candidate_msg), Tick 1000,
                    Signal (Some candidate_msg), Tick 2500, Tick 2500,
                    Signal (Some candidate_msg), Tick 5000]"
  have c: "js_get candidate_msg ''type'' = JStr ''candidate''" "js_get candidate_msg ''room'' = JStr ''1-2''"
    "js_get candidate_msg ''fromPeer'' = JStr ''bob''"
    by (simp_all add: candidate_msg_def)
  have h1: "timers_ok demo_answerer_world \<and> list_all candidate_event evs"
    by (simp add: timers_ok_def demo_answerer_world_facts evs_def c)
  have h2: "onlineStatus demo_answerer_world \<noteq> Offline \<and> js_get candidate_msg ''type'' = JStr ''candidate''
       \<and> peer_of demo_answerer_world (js_get candidate_msg ''room'') (js_get candidate_msg ''fromPeer'') = Some 0
       \<and> peerConnection (peerObj demo_answerer_world 0) \<noteq> None
       \<and> \<not> noNeedReconnect (peerObj demo_answerer_world 0)
       \<and> \<not> isConnected (peerObj demo_answerer_world 0)
       \<and> connectionRole (peerObj demo_answerer_world 0) = Some Answer
       \<and> timers demo_answerer_world = [] \<and> rtcSupported demo_answerer_world"
    by (simp add: demo_answerer_world_facts c blank_peer_def)
  have z: "offers_to demo_answerer_world 0 demo_answerer_world = 0"
    by (simp add: offers_to_def demo_answerer_world_facts)
  note T = reconnect_fires_at_most_once [of demo_answerer_world evs 0 demo_env candidate_msg,
      unfolded Let_def]
  have a: "offers_to demo_answerer_world 0 (run demo_env evs demo_answerer_world) \<le> 1"
    using conjunct1 [OF T] h1 z by simp
  have b: "filter (is_offer_to demo_answerer_world 0)
        (out (step demo_env (Tick 2500) (step demo_env (Signal (Some candidate_msg)) demo_answerer_world)))
      = filter (is_offer_to demo_answerer_world 0) (out demo_answerer_world)
         @ [PcCreateOffer (fresh demo_answerer_world) (js_get candidate_msg ''room'') (js_get candidate_msg ''fromPeer'')]"
    using conjunct1 [OF conjunct2 [OF T]] h2 by blast
  show ?thesis using a b unfolding evs_def by (simp add: demo_answerer_world_facts c)
qed

section \<open>Properties of the room name\<close>

lemma sort_two_commute: "sort_two a b = sort_two b a"
  by (auto simp: sort_two_def)

lemma sort_two_min_max: "sort_two a b = [min a b, max a b]"
  by (auto simp: sort_two_def min_def max_def)

text \<open>
  C3. The one-to-one room name is symmetric in the two public keys, and it is the smaller
  of the two derived account identifiers, the separator \<open>-\<close>, and the larger one.
\<close>

theorem generateOneToOneRoomName_symmetric:
  "generateOneToOneRoomName acc A B = generateOneToOneRoomName acc B A
   \<and> generateOneToOneRoomName acc A B = min (acc A) (acc B) @ ''-'' @ max (acc A) (acc B)"
  by (simp add: generateOneToOneRoomName_def sort_two_min_max min.commute max.commute)

theorem generateOneToOneRoomName_symmetric_witness:
  "generateOneToOneRoomName (\<lambda>k. k) ''9'' ''10'' = generateOneToOneRoomName (\<lambda>k. k) ''10'' ''9''
   \<and> generateOneToOneRoomName (\<lambda>k. k) ''9'' ''10'' = ''10-9''"
  using generateOneToOneRoomName_symmetric [of "\<lambda>k. k" "''9''" "''10''"]
  by (simp add: generateOneToOneRoomName_def sort_two_def)

end
